theory Spec2Isabelle
  imports Main
begin

section \<open>The \<open>newday\<close> task of \<open>tasks.py\<close>\<close>

text \<open>
  The repository holds one invoke task:
  \<^verbatim>\<open>
  @task
  def newday(c, day):
      day = int(day)
      c.run(f"mkdir -p puzzles/{day:d}/")
      if not os.path.exists(f"src/puzzles/day{day:d}.rs"):
          c.run(f"cp templates/dayn.rs src/puzzles/day{day:d}.rs")
  \<close>
  The task is five lines, but each of them calls into the environment: Python's
  \<open>int\<close> and number formatting, invoke's \<open>c.run\<close>, the shell utilities \<open>mkdir\<close> and
  \<open>cp\<close>, and \<open>os.path.exists\<close>. The embedding below models each of these as a function of
  its own and then transcribes \<open>newday\<close> line by line on top of them.
\<close>

subsection \<open>Python: \<open>int(str)\<close> and the format specification \<open>d\<close>\<close>

text \<open>
  The task is called from invoke's command line, so \<open>day\<close> arrives as a string. A
  \<open>char\<close> stands for a code point below 256. In that range \<open>int\<close> skips the white space
  characters U+0009 to U+000D, U+0020, U+0085 and U+00A0 on both sides, accepts one sign,
  and then wants decimal digits, where single underscores may sit between two digits.
  Anything else raises \<open>ValueError\<close>, which is \<open>None\<close> here. (The limit on the number of
  digits that later Python versions put on the conversion is left out: days are unbounded
  integers.)
\<close>

definition is_space :: "char \<Rightarrow> bool" where
  "is_space c = (c \<in> set [CHR 0x09, CHR 0x0A, CHR 0x0B, CHR 0x0C, CHR 0x0D, CHR 0x20,
                            CHR 0x85, CHR 0xA0])"

definition is_digit :: "char \<Rightarrow> bool" where
  "is_digit c = (c \<in> set ''0123456789'')"

definition digit_val :: "char \<Rightarrow> nat" where
  "digit_val c = of_char c - 48"

text \<open>
  The digit loop: \<open>prevd\<close> says that the character before was a digit, which is what allows
  an underscore or the end of the number at this place.
\<close>

fun scan_digits :: "bool \<Rightarrow> nat \<Rightarrow> string \<Rightarrow> (nat \<times> string) option" where
  "scan_digits prevd acc [] = (if prevd then Some (acc, []) else None)"
| "scan_digits prevd acc (c # cs) =
     (if is_digit c then scan_digits True (10 * acc + digit_val c) cs
      else if c = CHR ''_'' then (if prevd then scan_digits False acc cs else None)
      else if prevd then Some (acc, c # cs) else None)"

definition py_int :: "string \<Rightarrow> int option" where
  "py_int s =
     (let t = dropWhile is_space s;
          neg = (t \<noteq> [] \<and> hd t = CHR ''-'');
          u = (if t \<noteq> [] \<and> (hd t = CHR ''-'' \<or> hd t = CHR ''+'') then tl t else t)
      in case scan_digits False 0 u of
           None \<Rightarrow> None
         | Some (n, rest) \<Rightarrow>
             if list_all is_space rest then Some (if neg then - int n else int n) else None)"

text \<open>
  \<open>f"{day:d}"\<close>: the decimal digits of the integer, without leading zeros, after a minus
  sign when it is negative.
\<close>

definition digit_char :: "nat \<Rightarrow> char" where
  "digit_char n = ''0123456789'' ! n"

fun digits_of :: "nat \<Rightarrow> string" where
  "digits_of n =
     (if n < 10 then [digit_char n] else digits_of (n div 10) @ [digit_char (n mod 10)])"

declare digits_of.simps [simp del]

definition format_d :: "int \<Rightarrow> string" where
  "format_d d = (if d < 0 then CHR ''-'' # digits_of (nat (- d)) else digits_of (nat d))"

subsection \<open>The file system\<close>

text \<open>
  A path is the list of its components below the working directory of the process, and the
  file system maps a path to what is found there: nothing, a regular file with its bytes,
  or a directory. The working directory itself (the empty path) is a directory. Symbolic
  links, permissions and devices are not part of the model. The theorems hold for every
  such map, whether or not each entry has its parent directory in the map as well; the
  example trees are proper trees.
\<close>

type_synonym path = "string list"

datatype node = File string | Dir

type_synonym fs = "path \<Rightarrow> node option"

definition node_at :: "fs \<Rightarrow> path \<Rightarrow> node option" where
  "node_at f p = (if p = [] then Some Dir else f p)"

definition is_dir :: "fs \<Rightarrow> path \<Rightarrow> bool" where
  "is_dir f p = (node_at f p = Some Dir)"

text \<open>
  A directory exists at a path when every step of the path is a directory; \<open>pre\<close> is the
  part of the path already walked.
\<close>

fun dirs_along :: "fs \<Rightarrow> path \<Rightarrow> path \<Rightarrow> bool" where
  "dirs_along f pre [] = True"
| "dirs_along f pre (c # cs) = (is_dir f (pre @ [c]) \<and> dirs_along f (pre @ [c]) cs)"

definition dir_exists :: "fs \<Rightarrow> path \<Rightarrow> bool" where
  "dir_exists f p = dirs_along f [] p"

subsection \<open>The shell commands\<close>

text \<open>
  \<open>c.run\<close> hands a command line to the shell. The two command lines of the task consist of
  words separated by single spaces, and their operands are relative paths with \<open>/\<close> between
  the components; quoting, globbing, \<open>.\<close> and \<open>..\<close> do not occur in them and are not
  modelled. \<open>split_on\<close> cuts a string at a separator; empty pieces (as the one after the
  final \<open>/\<close> of \<open>puzzles/5/\<close>) are dropped.
\<close>

fun split_on :: "char \<Rightarrow> string \<Rightarrow> string \<Rightarrow> string list" where
  "split_on sep acc [] = [acc]"
| "split_on sep acc (x # xs) =
     (if x = sep then acc # split_on sep [] xs else split_on sep (acc @ [x]) xs)"

definition pieces :: "char \<Rightarrow> string \<Rightarrow> string list" where
  "pieces sep s = filter (\<lambda>w. w \<noteq> []) (split_on sep [] s)"

definition shell_words :: "string \<Rightarrow> string list" where
  "shell_words cmd = pieces CHR '' '' cmd"

definition components :: "string \<Rightarrow> path" where
  "components p = pieces CHR ''/'' p"

text \<open>
  \<open>mkdir -p\<close> walks the path from the working directory: a missing component is created
  as a directory, an existing directory is entered, and anything else in the way makes the
  command fail with exit status 1. The result is the exit status and the file system the
  command leaves behind.
\<close>

fun mkdir_p :: "fs \<Rightarrow> path \<Rightarrow> path \<Rightarrow> nat \<times> fs" where
  "mkdir_p f pre [] = (0, f)"
| "mkdir_p f pre (c # cs) =
     (case node_at f (pre @ [c]) of
        None \<Rightarrow> mkdir_p (f(pre @ [c] \<mapsto> Dir)) (pre @ [c]) cs
      | Some Dir \<Rightarrow> mkdir_p f (pre @ [c]) cs
      | Some (File _) \<Rightarrow> (1, f))"

text \<open>
  \<open>cp SOURCE DEST\<close> without options: the source has to be a regular file. A destination
  that is a directory stands for the file of the source's name inside it. The file to
  write must not be the source itself nor a directory; a regular file there is
  overwritten, and a file that does not exist is created, for which its parent has to be a
  directory. Every failure is exit status 1 and leaves the file system as it was.
\<close>

definition write_file :: "fs \<Rightarrow> path \<Rightarrow> string \<Rightarrow> nat \<times> fs" where
  "write_file f t bytes =
     (case node_at f t of
        Some Dir \<Rightarrow> (1, f)
      | Some (File _) \<Rightarrow> (0, f(t \<mapsto> File bytes))
      | None \<Rightarrow> if is_dir f (butlast t) then (0, f(t \<mapsto> File bytes)) else (1, f))"

definition cp :: "fs \<Rightarrow> path \<Rightarrow> path \<Rightarrow> nat \<times> fs" where
  "cp f s t =
     (case node_at f s of
        Some (File bytes) \<Rightarrow>
          let target = (if is_dir f t then t @ [last s] else t)
          in if target = s then (1, f) else write_file f target bytes
      | _ \<Rightarrow> (1, f))"

definition sh :: "string \<Rightarrow> fs \<Rightarrow> nat \<times> fs" where
  "sh cmd f =
     (let ws = shell_words cmd in
      if length ws = 3 \<and> ws ! 0 = ''mkdir'' \<and> ws ! 1 = ''-p''
        then mkdir_p f [] (components (ws ! 2))
      else if length ws = 3 \<and> ws ! 0 = ''cp''
        then cp f (components (ws ! 1)) (components (ws ! 2))
      else (127, f))"

definition path_exists :: "fs \<Rightarrow> string \<Rightarrow> bool" where
  \<comment> \<open>\<open>os.path.exists\<close>\<close>
  "path_exists f p = (node_at f (components p) \<noteq> None)"

subsection \<open>invoke's \<open>c.run\<close> and the task\<close>

text \<open>
  The state the task works on: the file system, and the command lines given to \<open>c.run\<close> so
  far, oldest first. \<open>c.run\<close> raises \<open>UnexpectedExit\<close> when the command's exit status is
  not 0; an exception ends the task and leaves the state as it is at that moment.
\<close>

record world =
  files :: fs
  cmds :: "string list"

datatype error = ValueError | UnexpectedExit string nat

definition run :: "string \<Rightarrow> world \<Rightarrow> (error + unit) \<times> world" where
  "run cmd w =
     (case sh cmd (files w) of
        (status, f') \<Rightarrow>
          let w' = \<lparr>files = f', cmds = cmds w @ [cmd]\<rparr>
          in if status = 0 then (Inr (), w') else (Inl (UnexpectedExit cmd status), w'))"

text \<open>
  The three f-strings of the task, for the day \<open>d\<close> that \<open>int(day)\<close> returned:
  \<^verbatim>\<open>f"mkdir -p puzzles/{day:d}/"\<close>, \<^verbatim>\<open>f"src/puzzles/day{day:d}.rs"\<close> and
  \<^verbatim>\<open>f"cp templates/dayn.rs src/puzzles/day{day:d}.rs"\<close>.
\<close>

definition mkdir_line :: "int \<Rightarrow> string" where
  "mkdir_line d = ''mkdir -p puzzles/'' @ format_d d @ ''/''"

definition source_name :: "int \<Rightarrow> string" where
  "source_name d = ''src/puzzles/day'' @ format_d d @ ''.rs''"

definition cp_line :: "int \<Rightarrow> string" where
  "cp_line d = ''cp templates/dayn.rs src/puzzles/day'' @ format_d d @ ''.rs''"

definition newday :: "string \<Rightarrow> world \<Rightarrow> (error + unit) \<times> world" where
  "newday day w =
     (case py_int day of
        None \<Rightarrow> (Inl ValueError, w)
      | Some d \<Rightarrow>
          (case run (mkdir_line d) w of
             (Inl e, w1) \<Rightarrow> (Inl e, w1)
           | (Inr _, w1) \<Rightarrow>
               if \<not> path_exists (files w1) (source_name d)
               then run (cp_line d) w1
               else (Inr (), w1)))"

text \<open>
  The paths these strings name, as the shell and \<open>os.path.exists\<close> read them.
\<close>

definition puzzle_dir :: "int \<Rightarrow> path" where
  "puzzle_dir d = components (''puzzles/'' @ format_d d @ ''/'')"

definition source_file :: "int \<Rightarrow> path" where
  "source_file d = components (source_name d)"

definition template :: path where
  "template = components ''templates/dayn.rs''"

subsection \<open>Example trees\<close>

text \<open>
  A project before any day was scaffolded: the template and \<open>src/puzzles/\<close> are there,
  \<open>puzzles/\<close> is not. \<open>bare_tree\<close> is a checkout that has the template only.
\<close>

definition fresh_tree :: fs where
  "fresh_tree = Map.empty
     ([''templates''] \<mapsto> Dir,
      [''templates'', ''dayn.rs''] \<mapsto> File ''fn main() {}'',
      [''src''] \<mapsto> Dir,
      [''src'', ''puzzles''] \<mapsto> Dir)"

definition bare_tree :: fs where
  "bare_tree = Map.empty
     ([''templates''] \<mapsto> Dir,
      [''templates'', ''dayn.rs''] \<mapsto> File ''fn main() {}'')"

definition start :: "fs \<Rightarrow> world" where
  "start f = \<lparr>files = f, cmds = []\<rparr>"

section \<open>Parsing and formatting the day\<close>

lemma digit_char_is_digit: "n < 10 \<Longrightarrow> is_digit (digit_char n)"
proof -
  assume "n < 10"
  then have "n \<in> {0,1,2,3,4,5,6,7,8,9}" by auto
  then show ?thesis by (auto simp: is_digit_def digit_char_def)
qed

lemma digit_val_digit_char: "n < 10 \<Longrightarrow> digit_val (digit_char n) = n"
proof -
  assume "n < 10"
  then have "n \<in> {0,1,2,3,4,5,6,7,8,9}" by auto
  then show ?thesis by (auto simp: digit_val_def digit_char_def)
qed

lemma digits_of_all_digits: "list_all is_digit (digits_of n)"
proof (induction n rule: digits_of.induct)
  case (1 n)
  show ?case
  proof (cases "n < 10")
    case True
    then show ?thesis by (subst digits_of.simps) (simp add: digit_char_is_digit)
  next
    case False
    with 1 show ?thesis by (subst digits_of.simps) (simp add: digit_char_is_digit)
  qed
qed

lemma digits_of_nonempty: "digits_of n \<noteq> []"
  by (subst digits_of.simps) simp

lemma scan_digits_append:
  "list_all is_digit ds \<Longrightarrow> ds \<noteq> [] \<Longrightarrow>
   scan_digits b acc (ds @ r) = scan_digits True (foldl (\<lambda>a c. 10 * a + digit_val c) acc ds) r"
proof (induction ds arbitrary: b acc)
  case Nil
  then show ?case by simp
next
  case (Cons c ds)
  then show ?case by (cases "ds = []") simp_all
qed

lemma digits_of_value: "foldl (\<lambda>a c. 10 * a + digit_val c) 0 (digits_of n) = n"
proof (induction n rule: digits_of.induct)
  case (1 n)
  show ?case
  proof (cases "n < 10")
    case True
    then show ?thesis by (subst digits_of.simps) (simp add: digit_val_digit_char)
  next
    case False
    with 1 show ?thesis by (subst digits_of.simps) (simp add: digit_val_digit_char)
  qed
qed

lemma scan_digits_of: "scan_digits False 0 (digits_of n) = Some (n, [])"
  using scan_digits_append [OF digits_of_all_digits digits_of_nonempty, of False 0 n "[]"]
  by (simp add: digits_of_value)

lemma is_digit_not_space: "is_digit c \<Longrightarrow> \<not> is_space c"
  by (auto simp: is_digit_def is_space_def)

lemma is_digit_not_sign: "is_digit c \<Longrightarrow> c \<noteq> CHR ''-'' \<and> c \<noteq> CHR ''+''"
  by (auto simp: is_digit_def)

lemma py_int_digits_of: "py_int (digits_of n) = Some (int n)"
proof -
  obtain c cs where eq: "digits_of n = c # cs"
    using digits_of_nonempty [of n] by (cases "digits_of n") auto
  have "is_digit c"
    using digits_of_all_digits [of n] by (simp add: eq)
  then have c: "\<not> is_space c" "c \<noteq> CHR ''-''" "c \<noteq> CHR ''+''"
    by (simp_all add: is_digit_not_space is_digit_not_sign)
  have "scan_digits False 0 (c # cs) = Some (n, [])"
    using scan_digits_of [of n] by (simp only: eq)
  with c show ?thesis
    by (simp add: py_int_def eq del: scan_digits.simps)
qed

lemma py_int_minus_digits_of: "py_int (CHR ''-'' # digits_of n) = Some (- int n)"
proof -
  have "\<not> is_space CHR ''-''" by (simp add: is_space_def)
  then show ?thesis
    by (simp add: py_int_def scan_digits_of del: scan_digits.simps)
qed

lemma py_int_format_d: "py_int (format_d d) = Some d"
  by (simp add: format_d_def py_int_digits_of py_int_minus_digits_of)

lemma format_d_inj: "format_d a = format_d b \<Longrightarrow> a = b"
proof -
  assume "format_d a = format_d b"
  then have "py_int (format_d a) = py_int (format_d b)" by simp
  then show "a = b" by (simp add: py_int_format_d)
qed

lemma digits_of_only_digits: "\<not> is_digit c \<Longrightarrow> c \<notin> set (digits_of n)"
  using digits_of_all_digits [of n] by (auto simp: list_all_iff)

lemma format_d_no_space: "CHR '' '' \<notin> set (format_d d)"
proof -
  have "\<not> is_digit CHR '' ''" by (simp add: is_digit_def)
  then show ?thesis by (simp add: format_d_def digits_of_only_digits)
qed

lemma format_d_no_slash: "CHR ''/'' \<notin> set (format_d d)"
proof -
  have "\<not> is_digit CHR ''/''" by (simp add: is_digit_def)
  then show ?thesis by (simp add: format_d_def digits_of_only_digits)
qed

lemma format_d_nonempty: "format_d d \<noteq> []"
  by (simp add: format_d_def digits_of_nonempty)

lemma split_on_append:
  "sep \<notin> set a \<Longrightarrow> split_on sep acc (a @ r) = split_on sep (acc @ a) r"
  by (induction a arbitrary: acc) auto

lemma shell_words_mkdir:
  "shell_words (''mkdir -p puzzles/'' @ format_d d @ ''/'') =
     [''mkdir'', ''-p'', ''puzzles/'' @ format_d d @ ''/'']"
  by (simp add: shell_words_def pieces_def split_on_append format_d_no_space)

lemma shell_words_cp:
  "shell_words (''cp templates/dayn.rs src/puzzles/day'' @ format_d d @ ''.rs'') =
     [''cp'', ''templates/dayn.rs'', ''src/puzzles/day'' @ format_d d @ ''.rs'']"
  by (simp add: shell_words_def pieces_def split_on_append format_d_no_space)

lemma components_puzzle_dir:
  "components (''puzzles/'' @ format_d d @ ''/'') = [''puzzles'', format_d d]"
  by (simp add: components_def pieces_def split_on_append format_d_no_slash format_d_nonempty)

lemma components_source_file:
  "components (''src/puzzles/day'' @ format_d d @ ''.rs'') =
     [''src'', ''puzzles'', ''day'' @ format_d d @ ''.rs'']"
  by (simp add: components_def pieces_def split_on_append format_d_no_slash)

lemma components_template:
  "components ''templates/dayn.rs'' = [''templates'', ''dayn.rs'']"
  by (simp add: components_def pieces_def)


section \<open>What the command lines of the task do\<close>

lemma puzzle_dir_eq: "puzzle_dir d = [''puzzles'', format_d d]"
  by (simp only: puzzle_dir_def components_puzzle_dir)

lemma source_file_eq: "source_file d = [''src'', ''puzzles'', ''day'' @ format_d d @ ''.rs'']"
  by (simp only: source_file_def source_name_def components_source_file)

lemma template_eq: "template = [''templates'', ''dayn.rs'']"
  by (simp only: template_def components_template)

lemma sh_mkdir_line: "sh (mkdir_line d) f = mkdir_p f [] (puzzle_dir d)"
proof -
  have "shell_words (mkdir_line d) = [''mkdir'', ''-p'', ''puzzles/'' @ format_d d @ ''/'']"
    by (simp only: mkdir_line_def shell_words_mkdir)
  then show ?thesis by (simp add: sh_def puzzle_dir_def del: mkdir_p.simps)
qed

lemma sh_cp_line: "sh (cp_line d) f = cp f template (source_file d)"
proof -
  have "shell_words (cp_line d) = [''cp'', ''templates/dayn.rs'', source_name d]"
    by (simp only: cp_line_def source_name_def shell_words_cp)
  then show ?thesis by (simp add: sh_def template_def source_file_def)
qed

lemma path_exists_source: "path_exists f (source_name d) = (f (source_file d) \<noteq> None)"
proof -
  have "source_file d \<noteq> []" by (simp add: source_file_eq)
  then show ?thesis by (simp add: path_exists_def node_at_def source_file_def)
qed

section \<open>Properties of \<open>mkdir -p\<close>\<close>

lemma mkdir_p_old: "f p \<noteq> None \<Longrightarrow> snd (mkdir_p f pre cs) p = f p"
proof (induction cs arbitrary: f pre)
  case Nil
  show ?case by simp
next
  case (Cons c cs)
  show ?case
  proof (cases "node_at f (pre @ [c])")
    case None
    let ?g = "f(pre @ [c] \<mapsto> Dir)"
    have eq: "mkdir_p f pre (c # cs) = mkdir_p ?g (pre @ [c]) cs" using None by simp
    have ne: "p \<noteq> pre @ [c]" using None Cons.prems by (auto simp: node_at_def)
    then have "?g p \<noteq> None" using Cons.prems by simp
    then have "snd (mkdir_p ?g (pre @ [c]) cs) p = ?g p" by (rule Cons.IH)
    also have "?g p = f p" using ne by simp
    finally show ?thesis by (simp only: eq)
  next
    case (Some n)
    with Cons show ?thesis by (cases n) simp_all
  qed
qed

lemma mkdir_p_new:
  "snd (mkdir_p f pre cs) p = f p \<or> (f p = None \<and> snd (mkdir_p f pre cs) p = Some Dir)"
proof (induction cs arbitrary: f pre)
  case Nil
  show ?case by simp
next
  case (Cons c cs)
  show ?case
  proof (cases "node_at f (pre @ [c])")
    case None
    then have none: "f (pre @ [c]) = None" by (simp add: node_at_def)
    show ?thesis
    proof (cases "p = pre @ [c]")
      case True
      have "snd (mkdir_p (f(pre @ [c] \<mapsto> Dir)) (pre @ [c]) cs) p = Some Dir"
        using mkdir_p_old [of "f(pre @ [c] \<mapsto> Dir)" p "pre @ [c]" cs] True by simp
      with None none True show ?thesis by simp
    next
      case False
      let ?g = "f(pre @ [c] \<mapsto> Dir)"
      have eq: "mkdir_p f pre (c # cs) = mkdir_p ?g (pre @ [c]) cs" using None by simp
      have "snd (mkdir_p ?g (pre @ [c]) cs) p = ?g p
            \<or> (?g p = None \<and> snd (mkdir_p ?g (pre @ [c]) cs) p = Some Dir)"
        by (rule Cons.IH)
      moreover have "?g p = f p" using False by simp
      ultimately show ?thesis by (simp only: eq)
    qed
  next
    case (Some n)
    with Cons.IH [of f "pre @ [c]"] show ?thesis by (cases n) simp_all
  qed
qed

lemma mkdir_p_frame:
  "snd (mkdir_p f pre cs) p \<noteq> f p \<Longrightarrow> \<exists>n. 0 < n \<and> n \<le> length cs \<and> p = pre @ take n cs"
proof (induction cs arbitrary: f pre)
  case Nil
  then show ?case by simp
next
  case (Cons c cs)
  show ?case
  proof (cases "p = pre @ [c]")
    case True
    then have "0 < (1::nat) \<and> 1 \<le> length (c # cs) \<and> p = pre @ take 1 (c # cs)" by simp
    then show ?thesis by blast
  next
    case False
    have "\<exists>g. mkdir_p f pre (c # cs) = mkdir_p g (pre @ [c]) cs \<and> g p = f p
            \<or> mkdir_p f pre (c # cs) = (1, f)"
    proof (cases "node_at f (pre @ [c])")
      case None
      then have "mkdir_p f pre (c # cs) = mkdir_p (f(pre @ [c] \<mapsto> Dir)) (pre @ [c]) cs
                 \<and> (f(pre @ [c] \<mapsto> Dir)) p = f p"
        using False by simp
      then show ?thesis by blast
    next
      case (Some n)
      then show ?thesis by (cases n) auto
    qed
    with Cons.prems obtain g where g: "mkdir_p f pre (c # cs) = mkdir_p g (pre @ [c]) cs" "g p = f p"
      by auto
    then have "snd (mkdir_p g (pre @ [c]) cs) p \<noteq> g p" using Cons.prems by simp
    from Cons.IH [OF this] obtain n where n: "0 < n" "n \<le> length cs" "p = (pre @ [c]) @ take n cs"
      by blast
    then have "0 < Suc n \<and> Suc n \<le> length (c # cs) \<and> p = pre @ take (Suc n) (c # cs)" by simp
    then show ?thesis by blast
  qed
qed

lemma dirs_along_old:
  "dirs_along f pre cs \<Longrightarrow> \<forall>p. f p \<noteq> None \<longrightarrow> g p = f p \<Longrightarrow> dirs_along g pre cs"
  by (induction cs arbitrary: pre) (auto simp: is_dir_def node_at_def)

lemma mkdir_p_ok:
  "fst (mkdir_p f pre cs) = 0 \<Longrightarrow> dirs_along (snd (mkdir_p f pre cs)) pre cs"
proof (induction cs arbitrary: f pre)
  case Nil
  show ?case by simp
next
  case (Cons c cs)
  show ?case
  proof (cases "node_at f (pre @ [c])")
    case None
    let ?g = "f(pre @ [c] \<mapsto> Dir)"
    have eq: "mkdir_p f pre (c # cs) = mkdir_p ?g (pre @ [c]) cs" using None by simp
    have "snd (mkdir_p ?g (pre @ [c]) cs) (pre @ [c]) = Some Dir"
      using mkdir_p_old [of ?g "pre @ [c]" "pre @ [c]" cs] by simp
    moreover have "fst (mkdir_p ?g (pre @ [c]) cs) = 0" using Cons.prems by (simp only: eq)
    then have "dirs_along (snd (mkdir_p ?g (pre @ [c]) cs)) (pre @ [c]) cs" by (rule Cons.IH)
    ultimately show ?thesis by (simp add: eq is_dir_def node_at_def del: mkdir_p.simps)
  next
    case (Some n)
    show ?thesis
    proof (cases n)
      case (File x)
      with Some Cons.prems show ?thesis by simp
    next
      case Dir
      have eq: "mkdir_p f pre (c # cs) = mkdir_p f (pre @ [c]) cs" using Some Dir by simp
      have "f (pre @ [c]) = Some Dir" using Some Dir by (simp add: node_at_def)
      then have "snd (mkdir_p f (pre @ [c]) cs) (pre @ [c]) = Some Dir"
        using mkdir_p_old [of f "pre @ [c]" "pre @ [c]" cs] by simp
      moreover have "fst (mkdir_p f (pre @ [c]) cs) = 0" using Cons.prems by (simp only: eq)
      then have "dirs_along (snd (mkdir_p f (pre @ [c]) cs)) (pre @ [c]) cs" by (rule Cons.IH)
      ultimately show ?thesis by (simp add: eq is_dir_def node_at_def del: mkdir_p.simps)
    qed
  qed
qed

lemma mkdir_p_noop: "dirs_along f pre cs \<Longrightarrow> mkdir_p f pre cs = (0, f)"
  by (induction cs arbitrary: pre) (auto simp: is_dir_def)

lemma mkdir_p_status: "fst (mkdir_p f pre cs) = 0 \<or> fst (mkdir_p f pre cs) = 1"
proof (induction cs arbitrary: f pre)
  case Nil
  show ?case by simp
next
  case (Cons c cs)
  show ?case
  proof (cases "node_at f (pre @ [c])")
    case None
    let ?g = "f(pre @ [c] \<mapsto> Dir)"
    have eq: "mkdir_p f pre (c # cs) = mkdir_p ?g (pre @ [c]) cs" using None by simp
    have "fst (mkdir_p ?g (pre @ [c]) cs) = 0 \<or> fst (mkdir_p ?g (pre @ [c]) cs) = 1"
      by (rule Cons.IH)
    then show ?thesis by (simp only: eq)
  next
    case (Some n)
    with Cons.IH [of f "pre @ [c]"] show ?thesis by (cases n) simp_all
  qed
qed

lemma mkdir_p_again:
  "mkdir_p (snd (mkdir_p f pre cs)) pre cs = mkdir_p f pre cs"
proof (induction cs arbitrary: f pre)
  case Nil
  show ?case by simp
next
  case (Cons c cs)
  show ?case
  proof (cases "node_at f (pre @ [c])")
    case None
    let ?g = "f(pre @ [c] \<mapsto> Dir)"
    have eq: "mkdir_p f pre (c # cs) = mkdir_p ?g (pre @ [c]) cs" using None by simp
    have "snd (mkdir_p ?g (pre @ [c]) cs) (pre @ [c]) = Some Dir"
      using mkdir_p_old [of ?g "pre @ [c]" "pre @ [c]" cs] by simp
    then have "mkdir_p (snd (mkdir_p ?g (pre @ [c]) cs)) pre (c # cs)
               = mkdir_p (snd (mkdir_p ?g (pre @ [c]) cs)) (pre @ [c]) cs"
      by (simp add: node_at_def)
    also have "\<dots> = mkdir_p ?g (pre @ [c]) cs" by (rule Cons.IH)
    finally show ?thesis by (simp only: eq)
  next
    case (Some n)
    show ?thesis
    proof (cases n)
      case (File x)
      with Some show ?thesis by simp
    next
      case Dir
      have eq: "mkdir_p f pre (c # cs) = mkdir_p f (pre @ [c]) cs" using Some Dir by simp
      have "f (pre @ [c]) = Some Dir" using Some Dir by (simp add: node_at_def)
      then have "snd (mkdir_p f (pre @ [c]) cs) (pre @ [c]) = Some Dir"
        using mkdir_p_old [of f "pre @ [c]" "pre @ [c]" cs] by simp
      then have "mkdir_p (snd (mkdir_p f (pre @ [c]) cs)) pre (c # cs)
                 = mkdir_p (snd (mkdir_p f (pre @ [c]) cs)) (pre @ [c]) cs"
        by (simp add: node_at_def)
      also have "\<dots> = mkdir_p f (pre @ [c]) cs" by (rule Cons.IH)
      finally show ?thesis by (simp only: eq)
    qed
  qed
qed


lemma mkdir_p_edit:
  "f q = Some (File old) \<Longrightarrow>
   mkdir_p (f(q \<mapsto> File new)) pre cs =
     (fst (mkdir_p f pre cs), (snd (mkdir_p f pre cs))(q \<mapsto> File new))"
proof (induction cs arbitrary: f pre)
  case Nil
  show ?case by simp
next
  case (Cons c cs)
  let ?pc = "pre @ [c]"
  show ?case
  proof (cases "q = ?pc")
    case True
    then show ?thesis using Cons.prems by (simp add: node_at_def)
  next
    case False
    then have same: "node_at (f(q \<mapsto> File new)) ?pc = node_at f ?pc" by (simp add: node_at_def)
    show ?thesis
    proof (cases "node_at f ?pc")
      case None
      let ?g = "f(?pc \<mapsto> Dir)"
      have "?g q = Some (File old)" using False Cons.prems by simp
      then have "mkdir_p (?g(q \<mapsto> File new)) ?pc cs =
                   (fst (mkdir_p ?g ?pc cs), (snd (mkdir_p ?g ?pc cs))(q \<mapsto> File new))"
        by (rule Cons.IH)
      moreover have "(f(q \<mapsto> File new))(?pc \<mapsto> Dir) = ?g(q \<mapsto> File new)"
        using False by (simp add: fun_upd_twist)
      moreover have "mkdir_p (f(q \<mapsto> File new)) pre (c # cs)
                       = mkdir_p ((f(q \<mapsto> File new))(?pc \<mapsto> Dir)) ?pc cs"
        using None same by simp
      moreover have "mkdir_p f pre (c # cs) = mkdir_p ?g ?pc cs" using None by simp
      ultimately show ?thesis by (simp only:)
    next
      case (Some n)
      show ?thesis
      proof (cases n)
        case (File x)
        have "mkdir_p (f(q \<mapsto> File new)) pre (c # cs) = (1, f(q \<mapsto> File new))"
          by (simp only: mkdir_p.simps same Some File option.case node.case)
        moreover have "mkdir_p f pre (c # cs) = (1, f)"
          by (simp only: mkdir_p.simps Some File option.case node.case)
        ultimately show ?thesis by (simp only: fst_conv snd_conv)
      next
        case Dir
        have "mkdir_p (f(q \<mapsto> File new)) ?pc cs =
                (fst (mkdir_p f ?pc cs), (snd (mkdir_p f ?pc cs))(q \<mapsto> File new))"
          using Cons.prems by (rule Cons.IH)
        moreover have "mkdir_p (f(q \<mapsto> File new)) pre (c # cs) = mkdir_p (f(q \<mapsto> File new)) ?pc cs"
          using Some Dir same by simp
        moreover have "mkdir_p f pre (c # cs) = mkdir_p f ?pc cs" using Some Dir by simp
        ultimately show ?thesis by (simp only:)
      qed
    qed
  qed
qed

section \<open>The paths of the task\<close>

lemma mkdir_puzzle_frame:
  assumes "p \<noteq> [''puzzles'']" "p \<noteq> puzzle_dir d"
  shows "snd (mkdir_p f [] (puzzle_dir d)) p = f p"
proof (rule ccontr)
  assume "snd (mkdir_p f [] (puzzle_dir d)) p \<noteq> f p"
  from mkdir_p_frame [OF this] obtain n
    where n: "0 < n" "n \<le> length (puzzle_dir d)" "p = [] @ take n (puzzle_dir d)" by blast
  then have "n = 1 \<or> n = 2" by (auto simp: puzzle_dir_eq)
  with n(3) assms show False by (auto simp: puzzle_dir_eq)
qed

lemma source_file_not_puzzle: "source_file d \<noteq> [''puzzles'']" "source_file d \<noteq> puzzle_dir e"
  by (simp_all add: source_file_eq puzzle_dir_eq)

lemma template_not_puzzle: "template \<noteq> [''puzzles'']" "template \<noteq> puzzle_dir e"
  by (simp_all add: template_eq puzzle_dir_eq)

lemma template_not_source: "template \<noteq> source_file d"
  by (simp add: template_eq source_file_eq)

lemma src_puzzles_not_puzzle: "[''src'', ''puzzles''] \<noteq> puzzle_dir e"
  by (simp add: puzzle_dir_eq)

lemma butlast_source_file: "butlast (source_file d) = [''src'', ''puzzles'']"
  by (simp add: source_file_eq)

lemma source_file_inj: "source_file d = source_file e \<Longrightarrow> d = e"
  by (simp add: source_file_eq format_d_inj)

lemma puzzle_dir_inj: "puzzle_dir d = puzzle_dir e \<Longrightarrow> d = e"
  by (simp add: puzzle_dir_eq format_d_inj)

lemma dir_exists_puzzle_dir:
  "dir_exists f (puzzle_dir d) = (f [''puzzles''] = Some Dir \<and> f (puzzle_dir d) = Some Dir)"
  by (simp add: dir_exists_def puzzle_dir_eq is_dir_def node_at_def)

lemma cp_absent:
  assumes "f t = None" "t \<noteq> []"
  shows "cp f s t =
     (case node_at f s of
        Some (File bytes) \<Rightarrow> if is_dir f (butlast t) then (0, f(t \<mapsto> File bytes)) else (1, f)
      | _ \<Rightarrow> (1, f))"
  using assms
  by (auto simp: cp_def write_file_def is_dir_def node_at_def Let_def
           split: option.splits node.splits)

lemma cp_to_source:
  assumes "f (source_file d) = None"
  shows "cp f template (source_file d) =
     (case f template of
        Some (File bytes) \<Rightarrow>
          if f [''src'', ''puzzles''] = Some Dir then (0, f(source_file d \<mapsto> File bytes)) else (1, f)
      | _ \<Rightarrow> (1, f))"
proof -
  have "source_file d \<noteq> []" by (simp add: source_file_eq)
  from cp_absent [of f "source_file d" template, OF assms this] show ?thesis
    by (simp add: butlast_source_file is_dir_def node_at_def template_eq
             split: option.splits node.splits)
qed

lemma mkdir_keeps_source: "snd (mkdir_p f [] (puzzle_dir d)) (source_file e) = f (source_file e)"
  by (rule mkdir_puzzle_frame) (rule source_file_not_puzzle)+

lemma mkdir_keeps_template: "snd (mkdir_p f [] (puzzle_dir d)) template = f template"
  by (rule mkdir_puzzle_frame) (rule template_not_puzzle)+

lemma mkdir_keeps_src_puzzles:
  "snd (mkdir_p f [] (puzzle_dir d)) [''src'', ''puzzles''] = f [''src'', ''puzzles'']"
  by (rule mkdir_puzzle_frame) (simp, rule src_puzzles_not_puzzle)

section \<open>The runs of \<open>newday\<close>\<close>

lemma run_mkdir_line:
  "run (mkdir_line d) w =
     (if fst (mkdir_p (files w) [] (puzzle_dir d)) = 0 then Inr ()
      else Inl (UnexpectedExit (mkdir_line d) (fst (mkdir_p (files w) [] (puzzle_dir d)))),
      \<lparr>files = snd (mkdir_p (files w) [] (puzzle_dir d)), cmds = cmds w @ [mkdir_line d]\<rparr>)"
  by (simp add: run_def sh_mkdir_line split: prod.splits)

lemma run_cp_line:
  "run (cp_line d) w =
     (if fst (cp (files w) template (source_file d)) = 0 then Inr ()
      else Inl (UnexpectedExit (cp_line d) (fst (cp (files w) template (source_file d)))),
      \<lparr>files = snd (cp (files w) template (source_file d)), cmds = cmds w @ [cp_line d]\<rparr>)"
  by (simp add: run_def sh_cp_line split: prod.splits)

text \<open>The four ways the task can go once the day has been parsed.\<close>

lemma newday_mkdir_fails:
  assumes "py_int s = Some d" "fst (mkdir_p (files w) [] (puzzle_dir d)) \<noteq> 0"
  shows "newday s w =
     (Inl (UnexpectedExit (mkdir_line d) 1),
      \<lparr>files = snd (mkdir_p (files w) [] (puzzle_dir d)), cmds = cmds w @ [mkdir_line d]\<rparr>)"
proof -
  have "fst (mkdir_p (files w) [] (puzzle_dir d)) = 1"
    using assms(2) mkdir_p_status [of "files w" "[]" "puzzle_dir d"] by simp
  then show ?thesis using assms(1) by (simp add: newday_def run_mkdir_line)
qed

lemma newday_file_present:
  assumes "py_int s = Some d" "fst (mkdir_p (files w) [] (puzzle_dir d)) = 0"
    "files w (source_file d) \<noteq> None"
  shows "newday s w =
     (Inr (), \<lparr>files = snd (mkdir_p (files w) [] (puzzle_dir d)), cmds = cmds w @ [mkdir_line d]\<rparr>)"
proof -
  show ?thesis using assms
    by (auto simp: newday_def run_mkdir_line path_exists_source mkdir_keeps_source)
qed

lemma newday_copy_done:
  assumes "py_int s = Some d" "fst (mkdir_p (files w) [] (puzzle_dir d)) = 0"
    "files w (source_file d) = None" "files w template = Some (File bytes)"
    "files w [''src'', ''puzzles''] = Some Dir"
  shows "newday s w =
     (Inr (), \<lparr>files = (snd (mkdir_p (files w) [] (puzzle_dir d)))(source_file d \<mapsto> File bytes),
               cmds = cmds w @ [mkdir_line d, cp_line d]\<rparr>)"
proof -
  let ?f1 = "snd (mkdir_p (files w) [] (puzzle_dir d))"
  have a: "?f1 (source_file d) = None"
    using assms(3) by (simp add: mkdir_keeps_source)
  have b: "?f1 template = Some (File bytes)"
    using assms(4) by (simp add: mkdir_keeps_template)
  have c: "?f1 [''src'', ''puzzles''] = Some Dir"
    using assms(5) by (simp only: mkdir_keeps_src_puzzles)
  have "cp ?f1 template (source_file d) = (0, ?f1(source_file d \<mapsto> File bytes))"
    by (simp add: cp_to_source [of ?f1 d, OF a] b c)
  then show ?thesis using assms(1,2) a
    by (simp add: newday_def run_mkdir_line run_cp_line path_exists_source)
qed

lemma newday_copy_fails:
  assumes "py_int s = Some d" "fst (mkdir_p (files w) [] (puzzle_dir d)) = 0"
    "files w (source_file d) = None"
    "\<not> ((\<exists>bytes. files w template = Some (File bytes)) \<and> files w [''src'', ''puzzles''] = Some Dir)"
  shows "newday s w =
     (Inl (UnexpectedExit (cp_line d) 1),
      \<lparr>files = snd (mkdir_p (files w) [] (puzzle_dir d)),
       cmds = cmds w @ [mkdir_line d, cp_line d]\<rparr>)"
proof -
  let ?f1 = "snd (mkdir_p (files w) [] (puzzle_dir d))"
  have a: "?f1 (source_file d) = None"
    using assms(3) by (simp add: mkdir_keeps_source)
  have b: "?f1 template = files w template"
    by (rule mkdir_keeps_template)
  have c: "?f1 [''src'', ''puzzles''] = files w [''src'', ''puzzles'']"
    by (rule mkdir_keeps_src_puzzles)
  have "cp ?f1 template (source_file d) = (1, ?f1)"
    using assms(4) by (auto simp: cp_to_source [of ?f1 d, OF a] b c split: option.splits node.splits)
  then show ?thesis using assms(1,2) a
    by (simp add: newday_def run_mkdir_line run_cp_line path_exists_source)
qed


lemma newday_parsed:
  assumes "py_int s = Some d"
  shows "newday s w =
      (let made = mkdir_p (files w) [] (puzzle_dir d);
           w1 = \<lparr>files = snd made, cmds = cmds w @ [mkdir_line d]\<rparr>
       in if fst made \<noteq> 0 then (Inl (UnexpectedExit (mkdir_line d) (fst made)), w1)
          else if snd made (source_file d) \<noteq> None then (Inr (), w1)
          else let copied = cp (snd made) template (source_file d);
                   w2 = \<lparr>files = snd copied, cmds = cmds w @ [mkdir_line d, cp_line d]\<rparr>
               in if fst copied = 0 then (Inr (), w2)
                  else (Inl (UnexpectedExit (cp_line d) (fst copied)), w2))"
  using assms
  by (auto simp: newday_def run_mkdir_line run_cp_line path_exists_source Let_def
           simp del: mkdir_p.simps)

lemma newday_settled:
  assumes "py_int s = Some d" "snd (mkdir_p (files w) [] (puzzle_dir d)) = files w"
    "files w (source_file d) \<noteq> None"
  shows "files (snd (newday s w)) = files w"
proof (cases "fst (mkdir_p (files w) [] (puzzle_dir d)) = 0")
  case True
  from newday_file_present [OF assms(1) True assms(3)] assms(2) show ?thesis by simp
next
  case False
  from newday_mkdir_fails [OF assms(1) False] assms(2) show ?thesis by simp
qed

lemma newday_mkdir_settled:
  assumes "py_int s = Some d"
  shows "snd (mkdir_p (files (snd (newday s w))) [] (puzzle_dir d)) = files (snd (newday s w))"
proof -
  let ?m = "mkdir_p (files w) [] (puzzle_dir d)"
  have again: "snd (mkdir_p (snd ?m) [] (puzzle_dir d)) = snd ?m"
    by (simp add: mkdir_p_again)
  show ?thesis
  proof (cases "fst ?m = 0")
    case False
    from newday_mkdir_fails [OF assms False] again show ?thesis by simp
  next
    case True
    show ?thesis
    proof (cases "files w (source_file d) = None")
      case False
      from newday_file_present [OF assms True False] again show ?thesis by simp
    next
      case None: True
      show ?thesis
      proof (cases "(\<exists>bytes. files w template = Some (File bytes))
                    \<and> files w [''src'', ''puzzles''] = Some Dir")
        case False
        from newday_copy_fails [OF assms True None False] again show ?thesis by simp
      next
        case True
        then obtain bytes where t: "files w template = Some (File bytes)"
          and p: "files w [''src'', ''puzzles''] = Some Dir" by blast
        let ?f2 = "(snd ?m)(source_file d \<mapsto> File bytes)"
        have "dirs_along (snd ?m) [] (puzzle_dir d)"
          using \<open>fst ?m = 0\<close> by (rule mkdir_p_ok)
        moreover have "snd ?m (source_file d) = None"
          using None by (simp add: mkdir_keeps_source)
        then have "\<forall>p. snd ?m p \<noteq> None \<longrightarrow> ?f2 p = snd ?m p" by auto
        ultimately have "dirs_along ?f2 [] (puzzle_dir d)" by (rule dirs_along_old)
        then have "mkdir_p ?f2 [] (puzzle_dir d) = (0, ?f2)" by (rule mkdir_p_noop)
        with newday_copy_done [OF assms \<open>fst ?m = 0\<close> None t p] show ?thesis by simp
      qed
    qed
  qed
qed

lemma newday_twice:
  "files (snd (newday s (snd (newday s w)))) = files (snd (newday s w))"
proof (cases "py_int s")
  case None
  then show ?thesis by (simp add: newday_def)
next
  case (Some d)
  let ?w1 = "snd (newday s w)"
  let ?m = "mkdir_p (files w) [] (puzzle_dir d)"
  have settled: "snd (mkdir_p (files ?w1) [] (puzzle_dir d)) = files ?w1"
    using Some by (rule newday_mkdir_settled)
  show ?thesis
  proof (cases "files ?w1 (source_file d) = None")
    case False
    from newday_settled [OF Some settled False] show ?thesis .
  next
    case absent: True
    show ?thesis
    proof (cases "fst (mkdir_p (files ?w1) [] (puzzle_dir d)) = 0")
      case False
      from newday_mkdir_fails [OF Some False] settled show ?thesis by simp
    next
      case ok1: True
      have "\<not> ((\<exists>bytes. files ?w1 template = Some (File bytes))
                \<and> files ?w1 [''src'', ''puzzles''] = Some Dir)"
      proof
        assume both: "(\<exists>bytes. files ?w1 template = Some (File bytes))
                \<and> files ?w1 [''src'', ''puzzles''] = Some Dir"
        show False
        proof (cases "fst ?m = 0")
          case False
          from newday_mkdir_fails [OF Some False] ok1 False show False
            by (simp add: mkdir_p_again)
        next
          case True
          have src: "files w (source_file d) = None"
          proof (rule ccontr)
            assume present: "files w (source_file d) \<noteq> None"
            from newday_file_present [OF Some True present] absent present show False
              by (simp add: mkdir_keeps_source)
          qed
          show False
          proof (cases "(\<exists>bytes. files w template = Some (File bytes))
                    \<and> files w [''src'', ''puzzles''] = Some Dir")
            case True
            then obtain bytes where t: "files w template = Some (File bytes)"
              and p: "files w [''src'', ''puzzles''] = Some Dir" by blast
            from newday_copy_done [OF Some \<open>fst ?m = 0\<close> src t p] absent show False by simp
          next
            case False
            from newday_copy_fails [OF Some True src False] both False show False
              by (simp add: mkdir_keeps_template mkdir_keeps_src_puzzles)
          qed
        qed
      qed
      from newday_copy_fails [OF Some ok1 absent this] settled show ?thesis by simp
    qed
  qed
qed


lemma newday_files:
  assumes "py_int s = Some d"
  shows "files (snd (newday s w)) = snd (mkdir_p (files w) [] (puzzle_dir d))
       \<or> (\<exists>bytes. files w template = Some (File bytes) \<and> files w (source_file d) = None
            \<and> files (snd (newday s w)) =
                (snd (mkdir_p (files w) [] (puzzle_dir d)))(source_file d \<mapsto> File bytes))"
proof -
  let ?m = "mkdir_p (files w) [] (puzzle_dir d)"
  show ?thesis
  proof (cases "fst ?m = 0")
    case False
    from newday_mkdir_fails [OF assms False] show ?thesis by simp
  next
    case ok: True
    show ?thesis
    proof (cases "files w (source_file d) = None")
      case False
      from newday_file_present [OF assms ok False] show ?thesis by simp
    next
      case absent: True
      show ?thesis
      proof (cases "(\<exists>bytes. files w template = Some (File bytes))
                    \<and> files w [''src'', ''puzzles''] = Some Dir")
        case False
        from newday_copy_fails [OF assms ok absent False] show ?thesis by simp
      next
        case True
        then obtain bytes where t: "files w template = Some (File bytes)"
          and p: "files w [''src'', ''puzzles''] = Some Dir" by blast
        from newday_copy_done [OF assms ok absent t p] t absent show ?thesis by simp
      qed
    qed
  qed
qed

lemma newday_never_overwrites:
  assumes "py_int s = Some d" "files w p \<noteq> None"
  shows "files (snd (newday s w)) p = files w p"
proof -
  have old: "snd (mkdir_p (files w) [] (puzzle_dir d)) p = files w p"
    using assms(2) by (rule mkdir_p_old)
  from newday_files [OF assms(1), of w] show ?thesis
  proof
    assume "files (snd (newday s w)) = snd (mkdir_p (files w) [] (puzzle_dir d))"
    with old show ?thesis by simp
  next
    assume "\<exists>bytes. files w template = Some (File bytes) \<and> files w (source_file d) = None
            \<and> files (snd (newday s w)) =
                (snd (mkdir_p (files w) [] (puzzle_dir d)))(source_file d \<mapsto> File bytes)"
    then obtain bytes where absent: "files w (source_file d) = None"
      and eq: "files (snd (newday s w)) =
                (snd (mkdir_p (files w) [] (puzzle_dir d)))(source_file d \<mapsto> File bytes)"
      by blast
    have "p \<noteq> source_file d" using absent assms(2) by auto
    with eq old show ?thesis by simp
  qed
qed

lemma newday_elsewhere:
  assumes "py_int s = Some d" "p \<noteq> [''puzzles'']" "p \<noteq> puzzle_dir d" "p \<noteq> source_file d"
  shows "files (snd (newday s w)) p = files w p"
proof -
  have "snd (mkdir_p (files w) [] (puzzle_dir d)) p = files w p"
    using assms(2,3) by (rule mkdir_puzzle_frame)
  with newday_files [OF assms(1), of w] assms(4) show ?thesis by auto
qed

lemma newday_new_dirs:
  assumes "py_int s = Some d" "p \<noteq> source_file d"
  shows "files (snd (newday s w)) p = files w p \<or> files (snd (newday s w)) p = Some Dir"
proof -
  have "files (snd (newday s w)) p = snd (mkdir_p (files w) [] (puzzle_dir d)) p"
    using newday_files [OF assms(1), of w] assms(2) by auto
  with mkdir_p_new [of "files w" "[]" "puzzle_dir d" p] show ?thesis by auto
qed

lemma newday_new_file:
  assumes "py_int s = Some d"
  shows "files (snd (newday s w)) (source_file d) = files w (source_file d)
       \<or> files (snd (newday s w)) (source_file d) = files w template"
  using newday_files [OF assms, of w] by (auto simp: mkdir_keeps_source)

lemma newday_ignores_contents:
  assumes "py_int s = Some d" "q \<noteq> template" "files w q = Some (File old)"
  shows "newday s (w\<lparr>files := (files w)(q \<mapsto> File new)\<rparr>) =
           (fst (newday s w),
            (snd (newday s w))\<lparr>files := (files (snd (newday s w)))(q \<mapsto> File new)\<rparr>)"
proof -
  let ?w' = "w\<lparr>files := (files w)(q \<mapsto> File new)\<rparr>"
  let ?m = "mkdir_p (files w) [] (puzzle_dir d)"
  have m': "mkdir_p ((files w)(q \<mapsto> File new)) [] (puzzle_dir d) =
              (fst ?m, (snd ?m)(q \<mapsto> File new))"
    using assms(3) by (rule mkdir_p_edit)
  show ?thesis
  proof (cases "fst ?m = 0")
    case False
    then have "fst (mkdir_p (files ?w') [] (puzzle_dir d)) \<noteq> 0" by (simp add: m')
    from newday_mkdir_fails [OF assms(1) this] newday_mkdir_fails [OF assms(1) False]
    show ?thesis by (simp add: m')
  next
    case ok: True
    then have ok': "fst (mkdir_p (files ?w') [] (puzzle_dir d)) = 0" by (simp add: m')
    show ?thesis
    proof (cases "files w (source_file d) = None")
      case False
      then have "files ?w' (source_file d) \<noteq> None" by simp
      from newday_file_present [OF assms(1) ok' this] newday_file_present [OF assms(1) ok False]
      show ?thesis by (simp add: m')
    next
      case absent: True
      then have ne: "q \<noteq> source_file d" using assms(3) by auto
      then have absent': "files ?w' (source_file d) = None" using absent by simp
      have t': "files ?w' template = files w template" using assms(2) by simp
      show ?thesis
      proof (cases "(\<exists>bytes. files w template = Some (File bytes))
                    \<and> files w [''src'', ''puzzles''] = Some Dir")
        case True
        then obtain bytes where t: "files w template = Some (File bytes)"
          and p: "files w [''src'', ''puzzles''] = Some Dir" by blast
        have "q \<noteq> [''src'', ''puzzles'']" using p assms(3) by auto
        then have p': "files ?w' [''src'', ''puzzles''] = Some Dir" using p by simp
        have t'': "files ?w' template = Some (File bytes)" using t t' by simp
        from newday_copy_done [OF assms(1) ok' absent' t'' p']
          newday_copy_done [OF assms(1) ok absent t p] ne
        show ?thesis by (simp add: m' fun_upd_twist)
      next
        case False
        have "\<not> ((\<exists>bytes. files ?w' template = Some (File bytes))
                 \<and> files ?w' [''src'', ''puzzles''] = Some Dir)"
        proof (cases "q = [''src'', ''puzzles'']")
          case True
          then show ?thesis by simp
        next
          case qne: False
          then have "files ?w' [''src'', ''puzzles''] = files w [''src'', ''puzzles'']" by simp
          with False t' show ?thesis by simp
        qed
        from newday_copy_fails [OF assms(1) ok' absent' this]
          newday_copy_fails [OF assms(1) ok absent False]
        show ?thesis by (simp add: m')
      qed
    qed
  qed
qed

section \<open>The example trees\<close>

lemmas py_int_eval = py_int_def is_space_def is_digit_def digit_val_def

lemmas format_d_eval = format_d_def digits_of.simps digit_char_def

lemma py_int_examples:
  "py_int ''5'' = Some 5" "py_int ''7'' = Some 7" "py_int ''07'' = Some 7"
  "py_int '' 7 '' = Some 7" "py_int ''+7'' = Some 7" "py_int ''-5'' = Some (- 5)"
  "py_int ''abc'' = None"
  by (simp_all add: py_int_eval)

lemma format_d_examples:
  "format_d 5 = ''5''" "format_d 7 = ''7''" "format_d (- 5) = ''-5''"
  by (simp_all add: format_d_eval)

lemmas tree_eval = start_def fresh_tree_def bare_tree_def puzzle_dir_eq source_file_eq template_eq
  format_d_examples

lemmas newday_eval = newday_def run_def sh_def shell_words_def pieces_def components_def
  mkdir_line_def cp_line_def source_name_def path_exists_def node_at_def is_dir_def cp_def
  Let_def write_file_def py_int_examples format_d_examples

lemma scenario_A:
  "newday ''5'' (start fresh_tree) =
     (Inr (),
      \<lparr>files = fresh_tree([''puzzles''] \<mapsto> Dir, [''puzzles'', ''5''] \<mapsto> Dir,
                 [''src'', ''puzzles'', ''day5.rs''] \<mapsto> File ''fn main() {}''),
       cmds = [''mkdir -p puzzles/5/'', ''cp templates/dayn.rs src/puzzles/day5.rs'']\<rparr>)"
  by (simp add: newday_eval start_def fresh_tree_def)

lemma fresh_tree_day7:
  "(let name = ''7'';
        made = mkdir_p (files (start fresh_tree)) [] [''puzzles'', name];
        w1 = \<lparr>files = snd made, cmds = cmds (start fresh_tree) @ [''mkdir -p puzzles/'' @ name @ ''/'']\<rparr>
    in if fst made \<noteq> 0
       then (Inl (UnexpectedExit (''mkdir -p puzzles/'' @ name @ ''/'') (fst made)), w1)
       else if snd made [''src'', ''puzzles'', ''day'' @ name @ ''.rs''] \<noteq> None
       then (Inr (), w1)
       else let copied = cp (snd made) [''templates'', ''dayn.rs'']
                            [''src'', ''puzzles'', ''day'' @ name @ ''.rs''];
                w2 = \<lparr>files = snd copied,
                      cmds = cmds (start fresh_tree) @ [''mkdir -p puzzles/'' @ name @ ''/'',
                                       ''cp templates/dayn.rs src/puzzles/day'' @ name @ ''.rs'']\<rparr>
            in if fst copied = 0 then (Inr (), w2)
               else (Inl (UnexpectedExit
                      (''cp templates/dayn.rs src/puzzles/day'' @ name @ ''.rs'') (fst copied)), w2))
   = (Inr (),
      \<lparr>files = fresh_tree([''puzzles''] \<mapsto> Dir, [''puzzles'', ''7''] \<mapsto> Dir,
                 [''src'', ''puzzles'', ''day7.rs''] \<mapsto> File ''fn main() {}''),
       cmds = [''mkdir -p puzzles/7/'', ''cp templates/dayn.rs src/puzzles/day7.rs'']\<rparr>)"
  by (simp add: start_def fresh_tree_def node_at_def cp_def write_file_def is_dir_def Let_def)


section \<open>The properties of the specification\<close>

text \<open>
  In the statements below \<open>s\<close> is the string the caller supplies, \<open>d\<close> the integer it
  parses to, and \<open>w\<close> any state of the world before the call. The specification's
  \<open>InvalidArgument\<close> is the \<open>ValueError\<close> of \<open>int\<close>, and its \<open>FilesystemError\<close> is the
  \<open>UnexpectedExit\<close> that \<open>c.run\<close> raises for a failed command.
\<close>

text \<open>
  \<^bold>\<open>C5.\<close> A day that \<open>int\<close> cannot parse makes the task fail with \<open>ValueError\<close>, before
  any side effect: the file system is unchanged and no command has been run.
\<close>

theorem newday_rejects_non_integer:
  assumes "py_int s = None"
  shows "newday s w = (Inl ValueError, w)"
  using assms by (simp add: newday_def)

theorem newday_rejects_non_integer_witness:
  "py_int ''abc'' = None \<and> newday ''abc'' (start fresh_tree) = (Inl ValueError, start fresh_tree)"
  using newday_rejects_non_integer [of "''abc''" "start fresh_tree"]
  by (simp add: py_int_examples)

text \<open>
  \<^bold>\<open>C1.\<close> When \<open>src/puzzles/day<d>.rs\<close> exists before the call, whatever it holds, it is
  the same afterwards, and the copy is skipped: the only command the task has run is the
  \<open>mkdir\<close>, so the task ends normally or with the failure of that \<open>mkdir\<close>, never with one
  of \<open>cp\<close>.
\<close>

theorem newday_keeps_existing_file:
  assumes "py_int s = Some d" "files w (source_file d) \<noteq> None"
  shows "files (snd (newday s w)) (source_file d) = files w (source_file d)
       \<and> cmds (snd (newday s w)) = cmds w @ [mkdir_line d]
       \<and> (fst (newday s w) = Inr () \<or> fst (newday s w) = Inl (UnexpectedExit (mkdir_line d) 1))"
proof (cases "fst (mkdir_p (files w) [] (puzzle_dir d)) = 0")
  case True
  from newday_file_present [OF assms(1) True assms(2)] show ?thesis
    by (simp add: mkdir_keeps_source)
next
  case False
  from newday_mkdir_fails [OF assms(1) False] show ?thesis
    by (simp add: mkdir_keeps_source)
qed

theorem newday_keeps_existing_file_witness:
  "py_int ''5'' = Some 5
   \<and> files (start (fresh_tree(source_file 5 \<mapsto> File ''solved!''))) (source_file 5) \<noteq> None
   \<and> files (snd (newday ''5'' (start (fresh_tree(source_file 5 \<mapsto> File ''solved!'')))))
        (source_file 5) = Some (File ''solved!'')
   \<and> cmds (snd (newday ''5'' (start (fresh_tree(source_file 5 \<mapsto> File ''solved!''))))) =
        [''mkdir -p puzzles/5/'']"
proof -
  let ?w = "start (fresh_tree(source_file 5 \<mapsto> File ''solved!''))"
  have a: "py_int ''5'' = Some 5" by (rule py_int_examples)
  have b: "files ?w (source_file 5) \<noteq> None" by (simp add: start_def)
  from newday_keeps_existing_file [OF a b] a b show ?thesis
    by (simp add: start_def mkdir_line_def format_d_examples)
qed

text \<open>
  \<^bold>\<open>C2.\<close> When \<open>src/puzzles/day<d>.rs\<close> does not exist before the call and the task ends
  normally, the file exists afterwards and holds exactly the bytes of
  \<open>templates/dayn.rs\<close>, which is itself as before.
\<close>

theorem newday_copies_template:
  assumes "py_int s = Some d" "files w (source_file d) = None" "fst (newday s w) = Inr ()"
  shows "\<exists>bytes. files w template = Some (File bytes)
                \<and> files (snd (newday s w)) (source_file d) = Some (File bytes)
                \<and> files (snd (newday s w)) template = Some (File bytes)"
proof -
  let ?m = "mkdir_p (files w) [] (puzzle_dir d)"
  have ok: "fst ?m = 0"
  proof (rule ccontr)
    assume "fst ?m \<noteq> 0"
    from newday_mkdir_fails [OF assms(1) this] assms(3) show False by simp
  qed
  have "(\<exists>bytes. files w template = Some (File bytes)) \<and> files w [''src'', ''puzzles''] = Some Dir"
  proof (rule ccontr)
    assume "\<not> ?thesis"
    from newday_copy_fails [OF assms(1) ok assms(2) this] assms(3) show False by simp
  qed
  then obtain bytes where t: "files w template = Some (File bytes)"
    and p: "files w [''src'', ''puzzles''] = Some Dir" by blast
  from newday_copy_done [OF assms(1) ok assms(2) t p]
  have "files (snd (newday s w)) = (snd ?m)(source_file d \<mapsto> File bytes)" by simp
  then have "files (snd (newday s w)) (source_file d) = Some (File bytes)"
    and "files (snd (newday s w)) template = Some (File bytes)"
    using t by (simp_all add: template_not_source mkdir_keeps_template)
  with t show ?thesis by blast
qed

theorem newday_copies_template_witness:
  "py_int ''5'' = Some 5
   \<and> files (start fresh_tree) (source_file 5) = None
   \<and> fst (newday ''5'' (start fresh_tree)) = Inr ()
   \<and> files (start fresh_tree) template = Some (File ''fn main() {}'')
   \<and> files (snd (newday ''5'' (start fresh_tree))) (source_file 5) = Some (File ''fn main() {}'')"
proof -
  have a: "py_int ''5'' = Some 5" by (rule py_int_examples)
  have b: "files (start fresh_tree) (source_file 5) = None" by (simp add: tree_eval)
  have c: "fst (newday ''5'' (start fresh_tree)) = Inr ()" by (simp add: scenario_A)
  have t: "files (start fresh_tree) template = Some (File ''fn main() {}'')"
    by (simp add: tree_eval)
  from newday_copies_template [OF a b c] t
  have "files (snd (newday ''5'' (start fresh_tree))) (source_file 5) = Some (File ''fn main() {}'')"
    by auto
  with a b c t show ?thesis by simp
qed

text \<open>
  \<^bold>\<open>C3.\<close> The task is idempotent on the file system: a second call right after the first
  leaves the file system as the first call left it. And when the day's source file, present
  after the first call, is edited to hold any other bytes before the second call, the
  second call changes nothing of the edited file system, so the edit stays.
\<close>

theorem newday_idempotent:
  "files (snd (newday s (snd (newday s w)))) = files (snd (newday s w))
   \<and> (py_int s = Some d \<longrightarrow> files (snd (newday s w)) (source_file d) = Some (File old) \<longrightarrow>
        files (snd (newday s
                 ((snd (newday s w))
                    \<lparr>files := (files (snd (newday s w)))(source_file d \<mapsto> File new)\<rparr>)))
          = (files (snd (newday s w)))(source_file d \<mapsto> File new))"
proof (intro conjI impI)
  show "files (snd (newday s (snd (newday s w)))) = files (snd (newday s w))"
    by (rule newday_twice)
next
  assume parsed: "py_int s = Some d"
    and there: "files (snd (newday s w)) (source_file d) = Some (File old)"
  let ?f1 = "files (snd (newday s w))"
  let ?w2 = "(snd (newday s w))\<lparr>files := ?f1(source_file d \<mapsto> File new)\<rparr>"
  have "snd (mkdir_p ?f1 [] (puzzle_dir d)) = ?f1"
    using parsed by (rule newday_mkdir_settled)
  moreover have "mkdir_p (?f1(source_file d \<mapsto> File new)) [] (puzzle_dir d) =
      (fst (mkdir_p ?f1 [] (puzzle_dir d)),
       (snd (mkdir_p ?f1 [] (puzzle_dir d)))(source_file d \<mapsto> File new))"
    using there by (rule mkdir_p_edit)
  ultimately have a: "snd (mkdir_p (files ?w2) [] (puzzle_dir d)) = files ?w2" by simp
  have b: "files ?w2 (source_file d) \<noteq> None" by simp
  from newday_settled [OF parsed a b]
  show "files (snd (newday s ?w2)) = ?f1(source_file d \<mapsto> File new)" by simp
qed

theorem newday_idempotent_witness:
  "py_int ''5'' = Some 5
   \<and> files (snd (newday ''5'' (start fresh_tree))) (source_file 5) = Some (File ''fn main() {}'')
   \<and> files (snd (newday ''5'' (snd (newday ''5'' (start fresh_tree)))))
       = files (snd (newday ''5'' (start fresh_tree)))
   \<and> files (snd (newday ''5''
        ((snd (newday ''5'' (start fresh_tree)))
           \<lparr>files := (files (snd (newday ''5'' (start fresh_tree))))
                        (source_file 5 \<mapsto> File ''solved!'')\<rparr>))) (source_file 5)
       = Some (File ''solved!'')"
proof -
  have a: "py_int ''5'' = Some 5" by (rule py_int_examples)
  have b: "files (snd (newday ''5'' (start fresh_tree))) (source_file 5)
             = Some (File ''fn main() {}'')"
    unfolding scenario_A by (simp add: tree_eval)
  note inst = newday_idempotent [of "''5''" "start fresh_tree" 5 "''fn main() {}''" "''solved!''"]
  from inst have c: "files (snd (newday ''5'' (snd (newday ''5'' (start fresh_tree)))))
       = files (snd (newday ''5'' (start fresh_tree)))" by (rule conjunct1)
  from inst a b have "files (snd (newday ''5''
        ((snd (newday ''5'' (start fresh_tree)))
           \<lparr>files := (files (snd (newday ''5'' (start fresh_tree))))
                        (source_file 5 \<mapsto> File ''solved!'')\<rparr>)))
       = (files (snd (newday ''5'' (start fresh_tree))))(source_file 5 \<mapsto> File ''solved!'')"
    by blast
  then have d: "files (snd (newday ''5''
        ((snd (newday ''5'' (start fresh_tree)))
           \<lparr>files := (files (snd (newday ''5'' (start fresh_tree))))
                        (source_file 5 \<mapsto> File ''solved!'')\<rparr>))) (source_file 5)
       = Some (File ''solved!'')" by simp
  from a b c d show ?thesis by (intro conjI)
qed




text \<open>
  \<^bold>\<open>C6.\<close> With \<open>templates/dayn.rs\<close> missing and \<open>src/puzzles/day<d>.rs\<close> absent the task
  always ends with an exception. When its \<open>mkdir\<close> step succeeds, the exception is the
  \<open>UnexpectedExit\<close> of the \<open>cp\<close> command, raised after exactly one \<open>mkdir\<close> and one \<open>cp\<close>
  (nothing is retried), and the file system is left as \<open>mkdir\<close> made it: the directory
  \<open>puzzles/<d>/\<close> is there and nothing is rolled back.
\<close>

theorem newday_missing_template:
  assumes "py_int s = Some d" "files w template = None" "files w (source_file d) = None"
  shows "(\<exists>e. fst (newday s w) = Inl e)
       \<and> (fst (run (mkdir_line d) w) = Inr () \<longrightarrow>
            fst (newday s w) = Inl (UnexpectedExit (cp_line d) 1)
          \<and> cmds (snd (newday s w)) = cmds w @ [mkdir_line d, cp_line d]
          \<and> files (snd (newday s w)) = files (snd (run (mkdir_line d) w))
          \<and> dir_exists (files (snd (newday s w))) (puzzle_dir d))"
proof (cases "fst (mkdir_p (files w) [] (puzzle_dir d)) = 0")
  case False
  from newday_mkdir_fails [OF assms(1) False] False show ?thesis
    by (simp add: run_mkdir_line)
next
  case True
  have "\<not> ((\<exists>bytes. files w template = Some (File bytes))
            \<and> files w [''src'', ''puzzles''] = Some Dir)"
    using assms(2) by simp
  from newday_copy_fails [OF assms(1) True assms(3) this] mkdir_p_ok [OF True] show ?thesis
    by (simp add: run_mkdir_line dir_exists_def)
qed

theorem newday_missing_template_witness:
  "py_int ''7'' = Some 7
   \<and> files (start (fresh_tree(template := None))) template = None
   \<and> files (start (fresh_tree(template := None))) (source_file 7) = None
   \<and> fst (run (mkdir_line 7) (start (fresh_tree(template := None)))) = Inr ()
   \<and> fst (newday ''7'' (start (fresh_tree(template := None)))) =
        Inl (UnexpectedExit ''cp templates/dayn.rs src/puzzles/day7.rs'' 1)
   \<and> cmds (snd (newday ''7'' (start (fresh_tree(template := None))))) =
        [''mkdir -p puzzles/7/'', ''cp templates/dayn.rs src/puzzles/day7.rs'']
   \<and> dir_exists (files (snd (newday ''7'' (start (fresh_tree(template := None)))))) (puzzle_dir 7)"
proof -
  let ?w = "start (fresh_tree(template := None))"
  have a: "py_int ''7'' = Some 7" by (rule py_int_examples)
  have b: "files ?w template = None" by (simp add: start_def)
  have c: "files ?w (source_file 7) = None" by (simp add: tree_eval)
  have d: "fst (run (mkdir_line 7) ?w) = Inr ()"
    unfolding run_mkdir_line by (simp add: tree_eval node_at_def)
  from newday_missing_template [OF a b c] d
  have "fst (newday ''7'' ?w) = Inl (UnexpectedExit (cp_line 7) 1)
      \<and> cmds (snd (newday ''7'' ?w)) = cmds ?w @ [mkdir_line 7, cp_line 7]
      \<and> dir_exists (files (snd (newday ''7'' ?w))) (puzzle_dir 7)" by blast
  then have "fst (newday ''7'' ?w) =
        Inl (UnexpectedExit ''cp templates/dayn.rs src/puzzles/day7.rs'' 1)
      \<and> cmds (snd (newday ''7'' ?w)) =
        [''mkdir -p puzzles/7/'', ''cp templates/dayn.rs src/puzzles/day7.rs'']
      \<and> dir_exists (files (snd (newday ''7'' ?w))) (puzzle_dir 7)"
    by (simp add: mkdir_line_def cp_line_def format_d_examples start_def)
  with a b c d show ?thesis by (intro conjI) blast+
qed

text \<open>
  \<^bold>\<open>C10.\<close> With \<open>src/puzzles/day<d>.rs\<close> absent and no \<open>src/puzzles/\<close> to put it in, the
  task always ends with an exception and never creates \<open>src/puzzles/\<close>. When its \<open>mkdir\<close>
  step succeeds, \<open>puzzles/<d>/\<close> has been created and the exception is the
  \<open>UnexpectedExit\<close> of the \<open>cp\<close> command that came after it.
\<close>

theorem newday_needs_src_puzzles:
  assumes "py_int s = Some d" "files w (source_file d) = None"
    "files w [''src'', ''puzzles''] = None"
  shows "(\<exists>e. fst (newday s w) = Inl e)
       \<and> files (snd (newday s w)) [''src'', ''puzzles''] = None
       \<and> (fst (run (mkdir_line d) w) = Inr () \<longrightarrow>
            fst (newday s w) = Inl (UnexpectedExit (cp_line d) 1)
          \<and> cmds (snd (newday s w)) = cmds w @ [mkdir_line d, cp_line d]
          \<and> dir_exists (files (snd (newday s w))) (puzzle_dir d))"
proof (cases "fst (mkdir_p (files w) [] (puzzle_dir d)) = 0")
  case False
  from newday_mkdir_fails [OF assms(1) False] False assms(3) show ?thesis
    by (simp add: run_mkdir_line mkdir_keeps_src_puzzles)
next
  case True
  have "\<not> ((\<exists>bytes. files w template = Some (File bytes))
            \<and> files w [''src'', ''puzzles''] = Some Dir)"
    using assms(3) by simp
  from newday_copy_fails [OF assms(1) True assms(2) this] mkdir_p_ok [OF True] assms(3)
  show ?thesis
    by (simp add: run_mkdir_line dir_exists_def mkdir_keeps_src_puzzles)
qed

theorem newday_needs_src_puzzles_witness:
  "py_int ''5'' = Some 5
   \<and> files (start bare_tree) (source_file 5) = None
   \<and> files (start bare_tree) [''src'', ''puzzles''] = None
   \<and> fst (run (mkdir_line 5) (start bare_tree)) = Inr ()
   \<and> fst (newday ''5'' (start bare_tree)) =
        Inl (UnexpectedExit ''cp templates/dayn.rs src/puzzles/day5.rs'' 1)
   \<and> files (snd (newday ''5'' (start bare_tree))) [''src'', ''puzzles''] = None
   \<and> dir_exists (files (snd (newday ''5'' (start bare_tree)))) (puzzle_dir 5)"
proof -
  let ?w = "start bare_tree"
  have a: "py_int ''5'' = Some 5" by (rule py_int_examples)
  have b: "files ?w (source_file 5) = None" by (simp add: tree_eval)
  have c: "files ?w [''src'', ''puzzles''] = None" by (simp add: tree_eval)
  have d: "fst (run (mkdir_line 5) ?w) = Inr ()"
    unfolding run_mkdir_line by (simp add: tree_eval node_at_def)
  from newday_needs_src_puzzles [OF a b c] d
  have "fst (newday ''5'' ?w) = Inl (UnexpectedExit (cp_line 5) 1)
      \<and> files (snd (newday ''5'' ?w)) [''src'', ''puzzles''] = None
      \<and> dir_exists (files (snd (newday ''5'' ?w))) (puzzle_dir 5)" by blast
  then have "fst (newday ''5'' ?w) =
        Inl (UnexpectedExit ''cp templates/dayn.rs src/puzzles/day5.rs'' 1)
      \<and> files (snd (newday ''5'' ?w)) [''src'', ''puzzles''] = None
      \<and> dir_exists (files (snd (newday ''5'' ?w))) (puzzle_dir 5)"
    by (simp add: cp_line_def format_d_examples)
  with a b c d show ?thesis by (intro conjI) blast+
qed

text \<open>
  \<^bold>\<open>C9.\<close> The task uses the caller's string only through the integer \<open>d\<close> it parses to,
  which it formats again in canonical decimal form. Whatever the spelling of the day, the
  run is this one: \<open>mkdir -p\<close> on the path \<open>puzzles/<d>\<close>, the existence test and the copy
  on the path \<open>src/puzzles/day<d>.rs\<close>, and the two command lines, all with the canonical
  text of \<open>d\<close> in them. That text parses back to \<open>d\<close> and belongs to no other integer, so
  strings that parse to the same integer give the same run on the same paths.
\<close>

theorem newday_canonical_day:
  assumes "py_int s = Some d"
  shows "newday s w =
      (let name = format_d d;
           made = mkdir_p (files w) [] [''puzzles'', name];
           w1 = \<lparr>files = snd made, cmds = cmds w @ [''mkdir -p puzzles/'' @ name @ ''/'']\<rparr>
       in if fst made \<noteq> 0
          then (Inl (UnexpectedExit (''mkdir -p puzzles/'' @ name @ ''/'') (fst made)), w1)
          else if snd made [''src'', ''puzzles'', ''day'' @ name @ ''.rs''] \<noteq> None
          then (Inr (), w1)
          else let copied = cp (snd made) [''templates'', ''dayn.rs'']
                               [''src'', ''puzzles'', ''day'' @ name @ ''.rs''];
                   w2 = \<lparr>files = snd copied,
                         cmds = cmds w @ [''mkdir -p puzzles/'' @ name @ ''/'',
                                          ''cp templates/dayn.rs src/puzzles/day'' @ name @ ''.rs'']\<rparr>
               in if fst copied = 0 then (Inr (), w2)
                  else (Inl (UnexpectedExit
                         (''cp templates/dayn.rs src/puzzles/day'' @ name @ ''.rs'') (fst copied)), w2))
       \<and> py_int (format_d d) = Some d
       \<and> (format_d e = format_d d) = (e = d)
       \<and> (py_int t = Some d \<longrightarrow> newday t w = newday s w)"
proof (intro conjI impI)
  from newday_parsed [OF assms, of w]
  show "newday s w =
      (let name = format_d d;
           made = mkdir_p (files w) [] [''puzzles'', name];
           w1 = \<lparr>files = snd made, cmds = cmds w @ [''mkdir -p puzzles/'' @ name @ ''/'']\<rparr>
       in if fst made \<noteq> 0
          then (Inl (UnexpectedExit (''mkdir -p puzzles/'' @ name @ ''/'') (fst made)), w1)
          else if snd made [''src'', ''puzzles'', ''day'' @ name @ ''.rs''] \<noteq> None
          then (Inr (), w1)
          else let copied = cp (snd made) [''templates'', ''dayn.rs'']
                               [''src'', ''puzzles'', ''day'' @ name @ ''.rs''];
                   w2 = \<lparr>files = snd copied,
                         cmds = cmds w @ [''mkdir -p puzzles/'' @ name @ ''/'',
                                          ''cp templates/dayn.rs src/puzzles/day'' @ name @ ''.rs'']\<rparr>
               in if fst copied = 0 then (Inr (), w2)
                  else (Inl (UnexpectedExit
                         (''cp templates/dayn.rs src/puzzles/day'' @ name @ ''.rs'') (fst copied)), w2))"
    by (simp only: Let_def puzzle_dir_eq source_file_eq template_eq mkdir_line_def cp_line_def)
next
  show "py_int (format_d d) = Some d" by (rule py_int_format_d)
next
  show "(format_d e = format_d d) = (e = d)" using format_d_inj [of e d] by auto
next
  assume "py_int t = Some d"
  with assms show "newday t w = newday s w" by (simp add: newday_def)
qed

theorem newday_canonical_day_witness:
  "py_int ''07'' = Some 7 \<and> py_int '' 7 '' = Some 7 \<and> py_int ''+7'' = Some 7
   \<and> py_int ''7'' = Some 7 \<and> format_d 7 = ''7''
   \<and> newday ''07'' (start fresh_tree) =
       (Inr (),
        \<lparr>files = fresh_tree([''puzzles''] \<mapsto> Dir, [''puzzles'', ''7''] \<mapsto> Dir,
                   [''src'', ''puzzles'', ''day7.rs''] \<mapsto> File ''fn main() {}''),
         cmds = [''mkdir -p puzzles/7/'', ''cp templates/dayn.rs src/puzzles/day7.rs'']\<rparr>)
   \<and> newday '' 7 '' (start fresh_tree) = newday ''07'' (start fresh_tree)
   \<and> newday ''+7'' (start fresh_tree) = newday ''07'' (start fresh_tree)
   \<and> newday ''7'' (start fresh_tree) = newday ''07'' (start fresh_tree)"
proof -
  have p: "py_int ''07'' = Some 7" "py_int '' 7 '' = Some 7" "py_int ''+7'' = Some 7"
    "py_int ''7'' = Some 7" by (rule py_int_examples)+
  have f: "format_d 7 = ''7''" by (rule format_d_examples)
  note inst = newday_canonical_day [OF p(1), of "start fresh_tree"]
  from inst [THEN conjunct1]
  have a: "newday ''07'' (start fresh_tree) =
       (Inr (),
        \<lparr>files = fresh_tree([''puzzles''] \<mapsto> Dir, [''puzzles'', ''7''] \<mapsto> Dir,
                   [''src'', ''puzzles'', ''day7.rs''] \<mapsto> File ''fn main() {}''),
         cmds = [''mkdir -p puzzles/7/'', ''cp templates/dayn.rs src/puzzles/day7.rs'']\<rparr>)"
    unfolding f fresh_tree_day7 .
  from inst [of 7 "'' 7 ''"] p(2)
  have b: "newday '' 7 '' (start fresh_tree) = newday ''07'' (start fresh_tree)" by blast
  from inst [of 7 "''+7''"] p(3)
  have c: "newday ''+7'' (start fresh_tree) = newday ''07'' (start fresh_tree)" by blast
  from inst [of 7 "''7''"] p(4)
  have d: "newday ''7'' (start fresh_tree) = newday ''07'' (start fresh_tree)" by blast
  from p f a b c d show ?thesis by (intro conjI)
qed


text \<open>
  \<^bold>\<open>C7\<close>, as the specification states it, does not hold: \<open>int\<close> accepts a minus sign and
  the task has no check of its own, so the day \<open>-5\<close> is scaffolded like any other.
\<close>

theorem newday_negative_day_accepted:
  "py_int ''-5'' = Some (- 5)
   \<and> fst (newday ''-5'' (start fresh_tree)) = Inr ()
   \<and> files (snd (newday ''-5'' (start fresh_tree))) [''puzzles'', ''-5''] = Some Dir
   \<and> files (snd (newday ''-5'' (start fresh_tree))) [''src'', ''puzzles'', ''day-5.rs'']
       = Some (File ''fn main() {}'')"
  by (simp add: newday_eval start_def fresh_tree_def)

text \<open>
  \<^bold>\<open>C7, amended.\<close> The day has to parse as an integer, of either sign. The task ends with
  \<open>ValueError\<close> exactly when \<open>int\<close> cannot parse the string, and the decimal text of every
  integer parses to that integer, a negative one with its minus sign. A day that parsed is
  scaffolded in the same way whatever its sign: \<open>mkdir -p puzzles/<d>/\<close> is run first; the
  task ends normally exactly when that succeeds and either the day's source file is there
  or the template is a regular file and \<open>src/puzzles/\<close> a directory; and after a normal end
  \<open>puzzles/\<close> and \<open>puzzles/<d>/\<close> are directories and \<open>src/puzzles/day<d>.rs\<close> holds what
  it held before or, when it was absent, the bytes of the template, copied by the \<open>cp\<close>
  command. For a negative day the names carry the minus sign.
\<close>

theorem newday_no_sign_check:
  "(fst (newday s w) = Inl ValueError) = (py_int s = None)
   \<and> py_int (format_d d) = Some d
   \<and> (d < 0 \<longrightarrow> format_d d = CHR ''-'' # digits_of (nat (- d)))
   \<and> (py_int s = Some d \<longrightarrow>
        (\<exists>rest. cmds (snd (newday s w)) =
                  cmds w @ (''mkdir -p puzzles/'' @ format_d d @ ''/'') # rest)
      \<and> (fst (newday s w) = Inr ()) =
          (fst (mkdir_p (files w) [] [''puzzles'', format_d d]) = 0
           \<and> (files w [''src'', ''puzzles'', ''day'' @ format_d d @ ''.rs''] \<noteq> None
              \<or> (\<exists>bytes. files w [''templates'', ''dayn.rs''] = Some (File bytes))
                \<and> files w [''src'', ''puzzles''] = Some Dir))
      \<and> (fst (newday s w) = Inr () \<longrightarrow>
            files (snd (newday s w)) [''puzzles''] = Some Dir
          \<and> files (snd (newday s w)) [''puzzles'', format_d d] = Some Dir
          \<and> files (snd (newday s w)) [''src'', ''puzzles'', ''day'' @ format_d d @ ''.rs''] =
              (if files w [''src'', ''puzzles'', ''day'' @ format_d d @ ''.rs''] = None
               then files w [''templates'', ''dayn.rs'']
               else files w [''src'', ''puzzles'', ''day'' @ format_d d @ ''.rs''])
          \<and> cmds (snd (newday s w)) =
              cmds w @
              (if files w [''src'', ''puzzles'', ''day'' @ format_d d @ ''.rs''] = None
               then [''mkdir -p puzzles/'' @ format_d d @ ''/'',
                     ''cp templates/dayn.rs src/puzzles/day'' @ format_d d @ ''.rs'']
               else [''mkdir -p puzzles/'' @ format_d d @ ''/''])))"
proof (intro conjI impI)
  show "(fst (newday s w) = Inl ValueError) = (py_int s = None)"
  proof (cases "py_int s")
    case None
    then show ?thesis by (simp add: newday_def)
  next
    case (Some k)
    from newday_parsed [OF Some, of w] have "fst (newday s w) \<noteq> Inl ValueError"
      by (simp add: Let_def del: mkdir_p.simps)
    with Some show ?thesis by simp
  qed
next
  show "py_int (format_d d) = Some d" by (rule py_int_format_d)
next
  assume "d < 0"
  then show "format_d d = CHR ''-'' # digits_of (nat (- d))" by (simp add: format_d_def)
next
  assume parsed: "py_int s = Some d"
  from newday_parsed [OF parsed, of w]
  have "\<exists>rest. cmds (snd (newday s w)) = cmds w @ mkdir_line d # rest"
    by (simp add: Let_def del: mkdir_p.simps)
  then show "\<exists>rest. cmds (snd (newday s w)) =
                  cmds w @ (''mkdir -p puzzles/'' @ format_d d @ ''/'') # rest"
    by (simp only: mkdir_line_def)
next
  assume parsed: "py_int s = Some d"
  let ?m = "mkdir_p (files w) [] (puzzle_dir d)"
  have "(fst (newday s w) = Inr ()) =
          (fst ?m = 0
           \<and> (files w (source_file d) \<noteq> None
              \<or> (\<exists>bytes. files w template = Some (File bytes))
                \<and> files w [''src'', ''puzzles''] = Some Dir))"
  proof (cases "fst ?m = 0")
    case False
    from newday_mkdir_fails [OF parsed False] False show ?thesis by simp
  next
    case ok: True
    show ?thesis
    proof (cases "files w (source_file d) = None")
      case False
      from newday_file_present [OF parsed ok False] ok False show ?thesis by simp
    next
      case absent: True
      show ?thesis
      proof (cases "(\<exists>bytes. files w template = Some (File bytes))
                    \<and> files w [''src'', ''puzzles''] = Some Dir")
        case False
        from newday_copy_fails [OF parsed ok absent False] ok absent False
        show ?thesis by simp
      next
        case True
        then obtain bytes where t: "files w template = Some (File bytes)"
          and p: "files w [''src'', ''puzzles''] = Some Dir" by blast
        from newday_copy_done [OF parsed ok absent t p] ok t p show ?thesis by simp
      qed
    qed
  qed
  then show "(fst (newday s w) = Inr ()) =
          (fst (mkdir_p (files w) [] [''puzzles'', format_d d]) = 0
           \<and> (files w [''src'', ''puzzles'', ''day'' @ format_d d @ ''.rs''] \<noteq> None
              \<or> (\<exists>bytes. files w [''templates'', ''dayn.rs''] = Some (File bytes))
                \<and> files w [''src'', ''puzzles''] = Some Dir))"
    by (simp only: puzzle_dir_eq source_file_eq template_eq)
next
  assume parsed: "py_int s = Some d" and normal: "fst (newday s w) = Inr ()"
  let ?m = "mkdir_p (files w) [] (puzzle_dir d)"
  have ok: "fst ?m = 0"
  proof (rule ccontr)
    assume "fst ?m \<noteq> 0"
    from newday_mkdir_fails [OF parsed this] normal show False by simp
  qed
  then have "dirs_along (snd ?m) [] (puzzle_dir d)" by (rule mkdir_p_ok)
  then have made: "snd ?m [''puzzles''] = Some Dir" "snd ?m (puzzle_dir d) = Some Dir"
    using dir_exists_puzzle_dir [of "snd ?m" d] by (simp_all add: dir_exists_def)
  have ne: "[''puzzles''] \<noteq> source_file d" "puzzle_dir d \<noteq> source_file d"
    using source_file_not_puzzle(1) [of d] source_file_not_puzzle(2) [of d d] by auto
  have all: "files (snd (newday s w)) [''puzzles''] = Some Dir
      \<and> files (snd (newday s w)) (puzzle_dir d) = Some Dir
      \<and> files (snd (newday s w)) (source_file d) =
          (if files w (source_file d) = None then files w template else files w (source_file d))
      \<and> cmds (snd (newday s w)) =
          cmds w @ (if files w (source_file d) = None then [mkdir_line d, cp_line d]
                    else [mkdir_line d])"
  proof (cases "files w (source_file d) = None")
    case False
    from newday_file_present [OF parsed ok False] made False show ?thesis
      by (auto simp: mkdir_keeps_source)
  next
    case absent: True
    have "(\<exists>bytes. files w template = Some (File bytes))
          \<and> files w [''src'', ''puzzles''] = Some Dir"
    proof (rule ccontr)
      assume "\<not> ?thesis"
      from newday_copy_fails [OF parsed ok absent this] normal show False by simp
    qed
    then obtain bytes where t: "files w template = Some (File bytes)"
      and p: "files w [''src'', ''puzzles''] = Some Dir" by blast
    from newday_copy_done [OF parsed ok absent t p] made ne absent t show ?thesis by simp
  qed
  from all show "files (snd (newday s w)) [''puzzles''] = Some Dir" by blast
  from all show "files (snd (newday s w)) [''puzzles'', format_d d] = Some Dir"
    by (simp only: puzzle_dir_eq)
  from all show "files (snd (newday s w)) [''src'', ''puzzles'', ''day'' @ format_d d @ ''.rs''] =
              (if files w [''src'', ''puzzles'', ''day'' @ format_d d @ ''.rs''] = None
               then files w [''templates'', ''dayn.rs'']
               else files w [''src'', ''puzzles'', ''day'' @ format_d d @ ''.rs''])"
    by (simp only: source_file_eq template_eq)
  from all show "cmds (snd (newday s w)) =
              cmds w @
              (if files w [''src'', ''puzzles'', ''day'' @ format_d d @ ''.rs''] = None
               then [''mkdir -p puzzles/'' @ format_d d @ ''/'',
                     ''cp templates/dayn.rs src/puzzles/day'' @ format_d d @ ''.rs'']
               else [''mkdir -p puzzles/'' @ format_d d @ ''/''])"
    by (simp only: source_file_eq mkdir_line_def cp_line_def)
qed

theorem newday_no_sign_check_witness:
  "py_int ''-5'' = Some (- 5) \<and> (- 5 :: int) < 0 \<and> format_d (- 5) = ''-5''
   \<and> fst (mkdir_p (files (start fresh_tree)) [] [''puzzles'', ''-5'']) = 0
   \<and> files (start fresh_tree) [''src'', ''puzzles'', ''day-5.rs''] = None
   \<and> files (start fresh_tree) [''templates'', ''dayn.rs''] = Some (File ''fn main() {}'')
   \<and> files (start fresh_tree) [''src'', ''puzzles''] = Some Dir
   \<and> fst (newday ''-5'' (start fresh_tree)) = Inr ()
   \<and> files (snd (newday ''-5'' (start fresh_tree))) [''puzzles''] = Some Dir
   \<and> files (snd (newday ''-5'' (start fresh_tree))) [''puzzles'', ''-5''] = Some Dir
   \<and> files (snd (newday ''-5'' (start fresh_tree))) [''src'', ''puzzles'', ''day-5.rs'']
        = files (start fresh_tree) [''templates'', ''dayn.rs'']
   \<and> cmds (snd (newday ''-5'' (start fresh_tree))) =
        [''mkdir -p puzzles/-5/'', ''cp templates/dayn.rs src/puzzles/day-5.rs'']"
proof -
  let ?w = "start fresh_tree"
  have a: "py_int ''-5'' = Some (- 5)" by (rule py_int_examples)
  have n: "(- 5 :: int) < 0" by simp
  note inst = newday_no_sign_check [of "''-5''" ?w "- 5"]
  from inst n have "format_d (- 5) = CHR ''-'' # digits_of (nat (- (- 5)))" by blast
  then have f: "format_d (- 5) = ''-5''" by (simp add: digits_of.simps digit_char_def)
  have h: "fst (mkdir_p (files ?w) [] [''puzzles'', ''-5'']) = 0"
    "files ?w [''src'', ''puzzles'', ''day-5.rs''] = None"
    "files ?w [''templates'', ''dayn.rs''] = Some (File ''fn main() {}'')"
    "files ?w [''src'', ''puzzles''] = Some Dir"
    by (simp_all add: start_def fresh_tree_def node_at_def)
  from inst a have "(fst (newday ''-5'' ?w) = Inr ()) =
          (fst (mkdir_p (files ?w) [] [''puzzles'', format_d (- 5)]) = 0
           \<and> (files ?w [''src'', ''puzzles'', ''day'' @ format_d (- 5) @ ''.rs''] \<noteq> None
              \<or> (\<exists>bytes. files ?w [''templates'', ''dayn.rs''] = Some (File bytes))
                \<and> files ?w [''src'', ''puzzles''] = Some Dir))"
    by blast
  with h have ok: "fst (newday ''-5'' ?w) = Inr ()"
    by (simp add: f del: mkdir_p.simps)
  from inst a ok have "files (snd (newday ''-5'' ?w)) [''puzzles''] = Some Dir
      \<and> files (snd (newday ''-5'' ?w)) [''puzzles'', format_d (- 5)] = Some Dir
      \<and> files (snd (newday ''-5'' ?w)) [''src'', ''puzzles'', ''day'' @ format_d (- 5) @ ''.rs''] =
          (if files ?w [''src'', ''puzzles'', ''day'' @ format_d (- 5) @ ''.rs''] = None
           then files ?w [''templates'', ''dayn.rs'']
           else files ?w [''src'', ''puzzles'', ''day'' @ format_d (- 5) @ ''.rs''])
      \<and> cmds (snd (newday ''-5'' ?w)) =
          cmds ?w @
          (if files ?w [''src'', ''puzzles'', ''day'' @ format_d (- 5) @ ''.rs''] = None
           then [''mkdir -p puzzles/'' @ format_d (- 5) @ ''/'',
                 ''cp templates/dayn.rs src/puzzles/day'' @ format_d (- 5) @ ''.rs'']
           else [''mkdir -p puzzles/'' @ format_d (- 5) @ ''/''])"
    by blast
  with h have r: "files (snd (newday ''-5'' ?w)) [''puzzles''] = Some Dir"
      "files (snd (newday ''-5'' ?w)) [''puzzles'', ''-5''] = Some Dir"
      "files (snd (newday ''-5'' ?w)) [''src'', ''puzzles'', ''day-5.rs'']
        = files ?w [''templates'', ''dayn.rs'']"
      "cmds (snd (newday ''-5'' ?w)) =
        [''mkdir -p puzzles/-5/'', ''cp templates/dayn.rs src/puzzles/day-5.rs'']"
    by (simp_all add: f start_def)
  from a n f h ok r show ?thesis by (intro conjI)
qed


text \<open>
  \<^bold>\<open>C8\<close>, as the specification states it, does not hold: \<open>mkdir -p\<close> also creates the
  parent \<open>puzzles/\<close> when it is missing, and that path is neither \<open>puzzles/5/\<close> nor
  \<open>src/puzzles/day5.rs\<close>.
\<close>

theorem newday_creates_parent_dir:
  "[''puzzles''] \<noteq> puzzle_dir 5 \<and> [''puzzles''] \<noteq> source_file 5
   \<and> files (start fresh_tree) [''puzzles''] = None
   \<and> files (snd (newday ''5'' (start fresh_tree))) [''puzzles''] = Some Dir"
  unfolding scenario_A by (simp add: tree_eval)

text \<open>
  \<^bold>\<open>C8, amended.\<close> The task changes the file system at three paths at most: the directory
  \<open>puzzles/<d>/\<close>, its parent \<open>puzzles/\<close>, and the file \<open>src/puzzles/day<d>.rs\<close>; every
  other path is as before. It only ever creates: whatever exists before the call is
  unchanged after it, among it the template and the files and directories of every other
  day \<open>e\<close>. What appears at the two directory paths is a directory, and what appears at the
  file path is what \<open>templates/dayn.rs\<close> holds. The template is the only file whose bytes
  the task reads: giving any other regular file \<open>q\<close> other bytes before the call changes
  neither the outcome nor the commands, and the resulting file system differs in the bytes
  of \<open>q\<close> only.
\<close>

theorem newday_frame:
  assumes "py_int s = Some d"
  shows "(p \<noteq> [''puzzles''] \<and> p \<noteq> puzzle_dir d \<and> p \<noteq> source_file d \<longrightarrow>
            files (snd (newday s w)) p = files w p)
       \<and> (files w p \<noteq> None \<longrightarrow> files (snd (newday s w)) p = files w p)
       \<and> files (snd (newday s w)) template = files w template
       \<and> (e \<noteq> d \<longrightarrow> files (snd (newday s w)) (source_file e) = files w (source_file e)
                    \<and> files (snd (newday s w)) (puzzle_dir e) = files w (puzzle_dir e))
       \<and> (files (snd (newday s w)) [''puzzles''] \<noteq> files w [''puzzles''] \<longrightarrow>
            files (snd (newday s w)) [''puzzles''] = Some Dir)
       \<and> (files (snd (newday s w)) (puzzle_dir d) \<noteq> files w (puzzle_dir d) \<longrightarrow>
            files (snd (newday s w)) (puzzle_dir d) = Some Dir)
       \<and> (files (snd (newday s w)) (source_file d) \<noteq> files w (source_file d) \<longrightarrow>
            files (snd (newday s w)) (source_file d) = files w template)
       \<and> (q \<noteq> template \<and> files w q = Some (File old) \<longrightarrow>
            newday s (w\<lparr>files := (files w)(q \<mapsto> File new)\<rparr>) =
              (fst (newday s w),
               (snd (newday s w))\<lparr>files := (files (snd (newday s w)))(q \<mapsto> File new)\<rparr>))"
proof (intro conjI impI)
  assume "p \<noteq> [''puzzles''] \<and> p \<noteq> puzzle_dir d \<and> p \<noteq> source_file d"
  then show "files (snd (newday s w)) p = files w p"
    using newday_elsewhere [OF assms, of p w] by blast
next
  assume "files w p \<noteq> None"
  with assms show "files (snd (newday s w)) p = files w p" by (rule newday_never_overwrites)
next
  show "files (snd (newday s w)) template = files w template"
    using assms template_not_puzzle(1) template_not_puzzle(2) template_not_source
    by (rule newday_elsewhere)
next
  assume "e \<noteq> d"
  then have "source_file e \<noteq> source_file d" using source_file_inj by blast
  with assms source_file_not_puzzle(1) source_file_not_puzzle(2)
  show "files (snd (newday s w)) (source_file e) = files w (source_file e)"
    by (rule newday_elsewhere)
next
  assume "e \<noteq> d"
  then have ne: "puzzle_dir e \<noteq> puzzle_dir d" using puzzle_dir_inj by blast
  have "puzzle_dir e \<noteq> [''puzzles'']" by (simp add: puzzle_dir_eq)
  moreover have "puzzle_dir e \<noteq> source_file d"
    using source_file_not_puzzle(2) [of d e] by auto
  ultimately show "files (snd (newday s w)) (puzzle_dir e) = files w (puzzle_dir e)"
    using assms ne by (simp add: newday_elsewhere)
next
  assume "files (snd (newday s w)) [''puzzles''] \<noteq> files w [''puzzles'']"
  moreover have "[''puzzles''] \<noteq> source_file d" using source_file_not_puzzle(1) [of d] by auto
  ultimately show "files (snd (newday s w)) [''puzzles''] = Some Dir"
    using newday_new_dirs [OF assms, of "[''puzzles'']" w] by blast
next
  assume "files (snd (newday s w)) (puzzle_dir d) \<noteq> files w (puzzle_dir d)"
  moreover have "puzzle_dir d \<noteq> source_file d" using source_file_not_puzzle(2) [of d d] by auto
  ultimately show "files (snd (newday s w)) (puzzle_dir d) = Some Dir"
    using newday_new_dirs [OF assms, of "puzzle_dir d" w] by blast
next
  assume "files (snd (newday s w)) (source_file d) \<noteq> files w (source_file d)"
  then show "files (snd (newday s w)) (source_file d) = files w template"
    using newday_new_file [OF assms, of w] by blast
next
  assume "q \<noteq> template \<and> files w q = Some (File old)"
  then have "q \<noteq> template" and "files w q = Some (File old)" by blast+
  with assms show "newday s (w\<lparr>files := (files w)(q \<mapsto> File new)\<rparr>) =
              (fst (newday s w),
               (snd (newday s w))\<lparr>files := (files (snd (newday s w)))(q \<mapsto> File new)\<rparr>)"
    by (rule newday_ignores_contents)
qed

theorem newday_frame_witness:
  "py_int ''5'' = Some 5
   \<and> source_file 4 \<noteq> [''puzzles''] \<and> source_file 4 \<noteq> puzzle_dir 5
   \<and> source_file 4 \<noteq> source_file 5 \<and> source_file 4 \<noteq> template \<and> (4::int) \<noteq> 5
   \<and> files (start (fresh_tree(source_file 4 \<mapsto> File ''done''))) (source_file 4)
        = Some (File ''done'')
   \<and> files (snd (newday ''5'' (start (fresh_tree(source_file 4 \<mapsto> File ''done'')))))
        (source_file 4) = Some (File ''done'')
   \<and> files (snd (newday ''5'' (start (fresh_tree(source_file 4 \<mapsto> File ''done'')))))
        (puzzle_dir 4) = None
   \<and> files (snd (newday ''5'' (start (fresh_tree(source_file 4 \<mapsto> File ''done'')))))
        template = Some (File ''fn main() {}'')
   \<and> files (snd (newday ''5'' (start (fresh_tree(source_file 4 \<mapsto> File ''done'')))))
        [''puzzles''] = Some Dir
   \<and> files (snd (newday ''5'' (start (fresh_tree(source_file 4 \<mapsto> File ''done'')))))
        (puzzle_dir 5) = Some Dir
   \<and> files (snd (newday ''5'' (start (fresh_tree(source_file 4 \<mapsto> File ''done'')))))
        (source_file 5) = Some (File ''fn main() {}'')
   \<and> newday ''5'' ((start (fresh_tree(source_file 4 \<mapsto> File ''done'')))
         \<lparr>files := (files (start (fresh_tree(source_file 4 \<mapsto> File ''done''))))
                      (source_file 4 \<mapsto> File ''redone'')\<rparr>) =
       (fst (newday ''5'' (start (fresh_tree(source_file 4 \<mapsto> File ''done'')))),
        (snd (newday ''5'' (start (fresh_tree(source_file 4 \<mapsto> File ''done'')))))
         \<lparr>files := (files (snd (newday ''5'' (start (fresh_tree(source_file 4 \<mapsto> File ''done''))))))
                      (source_file 4 \<mapsto> File ''redone'')\<rparr>)"
proof -
  let ?w = "start (fresh_tree(source_file 4 \<mapsto> File ''done''))"
  have f4: "format_d 4 = ''4''" by (simp add: format_d_eval)
  have a: "py_int ''5'' = Some 5" by (rule py_int_examples)
  have ne: "source_file 4 \<noteq> [''puzzles'']" "source_file 4 \<noteq> puzzle_dir 5"
    "source_file 4 \<noteq> source_file 5" "source_file 4 \<noteq> template" "(4::int) \<noteq> 5"
    by (simp_all add: tree_eval f4)
  have w4: "files ?w (source_file 4) = Some (File ''done'')" by (simp add: start_def)
  have w5: "files ?w (source_file 5) = None" "files ?w [''puzzles''] = None"
    "files ?w (puzzle_dir 5) = None" "files ?w (puzzle_dir 4) = None"
    "files ?w template = Some (File ''fn main() {}'')"
    by (simp_all add: tree_eval f4)
  have after: "files (snd (newday ''5'' ?w)) [''puzzles''] \<noteq> files ?w [''puzzles'']"
    "files (snd (newday ''5'' ?w)) (puzzle_dir 5) \<noteq> files ?w (puzzle_dir 5)"
    "files (snd (newday ''5'' ?w)) (source_file 5) \<noteq> files ?w (source_file 5)"
    by (simp_all add: newday_eval start_def fresh_tree_def source_file_eq puzzle_dir_eq f4)
  note inst = newday_frame [OF a, of "source_file 4" ?w 4 "source_file 4" "''done''" "''redone''"]
  from inst ne w4 have r1: "files (snd (newday ''5'' ?w)) (source_file 4) = Some (File ''done'')"
    by simp
  from inst ne w5 have r2: "files (snd (newday ''5'' ?w)) (puzzle_dir 4) = None"
    and r3: "files (snd (newday ''5'' ?w)) template = Some (File ''fn main() {}'')"
    by simp_all
  from inst after have r4: "files (snd (newday ''5'' ?w)) [''puzzles''] = Some Dir"
    and r5: "files (snd (newday ''5'' ?w)) (puzzle_dir 5) = Some Dir"
    by blast+
  from inst after w5 have r6: "files (snd (newday ''5'' ?w)) (source_file 5) = Some (File ''fn main() {}'')"
    by simp
  from inst ne w4 have r7: "newday ''5'' (?w\<lparr>files := (files ?w)(source_file 4 \<mapsto> File ''redone'')\<rparr>) =
       (fst (newday ''5'' ?w),
        (snd (newday ''5'' ?w))\<lparr>files := (files (snd (newday ''5'' ?w)))(source_file 4 \<mapsto> File ''redone'')\<rparr>)"
    by blast
  from a ne w4 r1 r2 r3 r4 r5 r6 r7 show ?thesis by (intro conjI)
qed


end
